theory Spec2Isabelle
  imports Complex_Main "HOL-Library.Monad_Syntax" "HOL-Library.State_Monad"
begin

section \<open>Arrays\<close>

text \<open>
  A numpy array or TensorFlow tensor is a shape together with its entries, read by an
  index list (one index per axis). Entries are real numbers: the float64 arithmetic of
  the program is idealised, so rounding, overflow, infinities and NaN are outside the model.
\<close>

record ndarray =
  shape :: "nat list"
  elem :: "nat list \<Rightarrow> real"

text \<open>
  An array made by an operator is kept in normal form: outside its shape every entry
  reads 0, so two arrays of one shape that agree on the indices of the shape are equal.
\<close>

definition valid_index :: "nat list \<Rightarrow> nat list \<Rightarrow> bool" where
  "valid_index shp idx = list_all2 (<) idx shp"

definition mk_array :: "nat list \<Rightarrow> (nat list \<Rightarrow> real) \<Rightarrow> ndarray" where
  "mk_array shp f = \<lparr>shape = shp, elem = (\<lambda>idx. if valid_index shp idx then f idx else 0)\<rparr>"

definition ix1 :: "(nat \<Rightarrow> real) \<Rightarrow> nat list \<Rightarrow> real" where
  "ix1 f idx = (case idx of [i] \<Rightarrow> f i | _ \<Rightarrow> 0)"

definition ix2 :: "(nat \<Rightarrow> nat \<Rightarrow> real) \<Rightarrow> nat list \<Rightarrow> real" where
  "ix2 f idx = (case idx of [i, j] \<Rightarrow> f i j | _ \<Rightarrow> 0)"

text \<open>\<^verbatim>\<open>np.zeros(shape)\<close>, \<^verbatim>\<open>np.ones(shape)\<close>, \<^verbatim>\<open>np.eye(n)\<close>.\<close>

definition np_zeros :: "nat list \<Rightarrow> ndarray" where
  "np_zeros shp = mk_array shp (\<lambda>idx. 0)"

definition np_ones :: "nat list \<Rightarrow> ndarray" where
  "np_ones shp = mk_array shp (\<lambda>idx. 1)"

definition np_eye :: "nat \<Rightarrow> ndarray" where
  "np_eye n = mk_array [n, n] (ix2 (\<lambda>i j. if i = j then 1 else 0))"

text \<open>
  \<^verbatim>\<open>np.array([a_0, ..., a_(k-1)])\<close> of equally shaped arrays stacks them along a new
  leading axis; of the empty list it is the one-dimensional array of shape \<open>(0,)\<close>.
\<close>

definition np_array :: "ndarray list \<Rightarrow> ndarray" where
  "np_array xs =
     (case xs of
        [] \<Rightarrow> mk_array [0] (\<lambda>idx. 0)
      | a # _ \<Rightarrow> mk_array (length xs # shape a)
                  (\<lambda>idx. case idx of [] \<Rightarrow> 0 | d # rest \<Rightarrow> elem (xs ! d) rest))"

text \<open>
  \<^verbatim>\<open>a.swapaxes(0, 2)\<close> exchanges the first and the third axis; numpy raises when the
  array has fewer than three axes.
\<close>

fun swap02 :: "'a list \<Rightarrow> 'a list" where
  "swap02 (a # b # c # rest) = c # b # a # rest"
| "swap02 xs = xs"

definition np_swapaxes02 :: "ndarray \<Rightarrow> ndarray option" where
  "np_swapaxes02 a =
     (if length (shape a) < 3 then None
      else Some (mk_array (swap02 (shape a)) (\<lambda>idx. elem a (swap02 idx))))"

text \<open>\<^verbatim>\<open>a.shape[k]\<close> for a constant \<open>k \<ge> 0\<close>: an IndexError when the array has too few axes.\<close>

definition shape_at :: "ndarray \<Rightarrow> nat \<Rightarrow> nat option" where
  "shape_at a k = (if k < length (shape a) then Some (shape a ! k) else None)"

subsection \<open>TensorFlow operators\<close>

text \<open>All index lists of a shape, in row-major order.\<close>

fun indices :: "nat list \<Rightarrow> nat list list" where
  "indices [] = [[]]"
| "indices (n # ns) = concat (map (\<lambda>i. map ((#) i) (indices ns)) [0..<n])"

definition tf_reduce_sum :: "ndarray \<Rightarrow> real" where
  "tf_reduce_sum a = sum_list (map (elem a) (indices (shape a)))"

definition tf_square :: "ndarray \<Rightarrow> ndarray" where
  "tf_square a = mk_array (shape a) (\<lambda>idx. (elem a idx)\<^sup>2)"

text \<open>
  \<^verbatim>\<open>tf.log\<close> is the natural logarithm. The model is exact on positive entries; on a zero
  entry the program yields minus infinity, which the reals do not have.
\<close>

definition tf_log :: "ndarray \<Rightarrow> ndarray" where
  "tf_log a = mk_array (shape a) (\<lambda>idx. ln (elem a idx))"

definition tf_transpose :: "ndarray \<Rightarrow> ndarray" where
  "tf_transpose a = mk_array (rev (shape a)) (\<lambda>idx. elem a (rev idx))"

definition tf_expand_dims :: "ndarray \<Rightarrow> nat \<Rightarrow> ndarray" where
  "tf_expand_dims a k =
     mk_array (take k (shape a) @ [1] @ drop k (shape a))
       (\<lambda>idx. elem a (take k idx @ drop (Suc k) idx))"

text \<open>A Python float used as an operand becomes a tensor of shape \<open>()\<close>.\<close>

definition tf_constant :: "real \<Rightarrow> ndarray" where
  "tf_constant c = mk_array [] (\<lambda>idx. c)"

text \<open>
  Binary operators broadcast: shapes are aligned at the last axis, a missing axis or an
  axis of length 1 is stretched. On shapes that cannot be broadcast TensorFlow raises; the
  model gives no meaning to that case.
\<close>

definition pad_shape :: "nat \<Rightarrow> nat list \<Rightarrow> nat list" where
  "pad_shape n s = replicate (n - length s) 1 @ s"

definition broadcast_shape :: "nat list \<Rightarrow> nat list \<Rightarrow> nat list" where
  "broadcast_shape s t =
     (let n = max (length s) (length t)
      in map2 (\<lambda>a b. if a = 1 then b else a) (pad_shape n s) (pad_shape n t))"

definition broadcast_index :: "nat list \<Rightarrow> nat list \<Rightarrow> nat list" where
  "broadcast_index s idx =
     map2 (\<lambda>n i. if n = 1 then 0 else i) s (drop (length idx - length s) idx)"

definition tf_binary :: "(real \<Rightarrow> real \<Rightarrow> real) \<Rightarrow> ndarray \<Rightarrow> ndarray \<Rightarrow> ndarray" where
  "tf_binary f a b =
     mk_array (broadcast_shape (shape a) (shape b))
       (\<lambda>idx. f (elem a (broadcast_index (shape a) idx))
                 (elem b (broadcast_index (shape b) idx)))"

definition tf_add :: "ndarray \<Rightarrow> ndarray \<Rightarrow> ndarray" where
  "tf_add = tf_binary (+)"

definition tf_mul :: "ndarray \<Rightarrow> ndarray \<Rightarrow> ndarray" where
  "tf_mul = tf_binary (*)"

text \<open>\<^verbatim>\<open>t[:, :, d]\<close> on a tensor with three axes.\<close>

definition slice_last :: "ndarray \<Rightarrow> nat \<Rightarrow> ndarray" where
  "slice_last a d = mk_array (take 2 (shape a)) (ix2 (\<lambda>i j. elem a [i, j, d]))"

subsection \<open>Custom operators of the repository\<close>

datatype tri = Lower | Upper

text \<open>
  Modelled from the spec: \<^verbatim>\<open>tf.user_ops.triangle\<close> and \<^verbatim>\<open>tf.user_ops.get_diag\<close> are
  compiled operators of the repository that are not among the sources. The spec lists them
  as lower-triangle extraction (entries above the diagonal are masked) and diagonal
  extraction. \<^verbatim>\<open>tf_hacks.eye\<close> is the identity matrix.
\<close>

definition triangle :: "ndarray \<Rightarrow> tri \<Rightarrow> ndarray" where
  "triangle a t =
     mk_array (shape a)
       (ix2 (\<lambda>i j. case t of Lower \<Rightarrow> (if j \<le> i then elem a [i, j] else 0)
                            | Upper \<Rightarrow> (if i \<le> j then elem a [i, j] else 0)))"

definition get_diag :: "ndarray \<Rightarrow> ndarray" where
  "get_diag a =
     mk_array (case shape a of [m, n] \<Rightarrow> [min m n] | _ \<Rightarrow> [])
       (ix1 (\<lambda>i. elem a [i, i]))"

definition eye :: "nat \<Rightarrow> ndarray" where
  "eye n = np_eye n"

section \<open>External collaborators\<close>

text \<open>
  The kernel, the likelihood and the mean function are objects handed to the constructor;
  the model only calls their methods.
\<close>

record kernel =
  K :: "ndarray \<Rightarrow> ndarray"
  K_cross :: "ndarray \<Rightarrow> ndarray \<Rightarrow> ndarray"
  Kdiag :: "ndarray \<Rightarrow> ndarray"

record likelihood =
  variational_expectations :: "ndarray \<Rightarrow> ndarray \<Rightarrow> ndarray \<Rightarrow> ndarray"

text \<open>
  The numerical back end: \<^verbatim>\<open>tf.cholesky\<close>, the compiled operator
  \<^verbatim>\<open>tf.user_ops.triangular_solve\<close>, and the two predictors of the module
  \<^verbatim>\<open>conditionals\<close>. All are parameters of the development. An exception raised inside
  one of them (a matrix that is not positive definite, a shape mismatch) aborts the
  evaluation; the model describes the evaluations that complete.

  Every call of \<^verbatim>\<open>tf.cholesky\<close> adds a factorization to the computation. The state
  threaded through an evaluation is the list of the matrices factorized so far, in the
  order of the calls. A predictor receives the arguments of its call site and this state,
  so it may factorize for itself.
\<close>

type_synonym factor_log = "ndarray list"

type_synonym predictor =
  "ndarray \<Rightarrow> ndarray \<Rightarrow> kernel \<Rightarrow> ndarray \<Rightarrow> ndarray \<Rightarrow> nat
     \<Rightarrow> (factor_log, ndarray \<times> ndarray) state"

record backend =
  cholesky :: "ndarray \<Rightarrow> ndarray"
  triangular_solve :: "ndarray \<Rightarrow> ndarray \<Rightarrow> tri \<Rightarrow> ndarray"
  gaussian_gp_predict :: predictor
  gaussian_gp_predict_whitened :: predictor

definition tf_cholesky :: "(ndarray \<Rightarrow> ndarray) \<Rightarrow> ndarray \<Rightarrow> (factor_log, ndarray) state" where
  "tf_cholesky chol a = State (\<lambda>fs. (chol a, fs @ [a]))"

definition jitter :: real where
  "jitter = 1 / 1000000"

definition rows :: "ndarray \<Rightarrow> nat" where
  "rows a = (case shape a of [] \<Rightarrow> 0 | n # _ \<Rightarrow> n)"

definition cols :: "ndarray \<Rightarrow> nat" where
  "cols a = (case shape a of [r, c] \<Rightarrow> c | _ \<Rightarrow> 0)"

section \<open>Parameters\<close>

text \<open>
  Modelled from the spec: the class \<^verbatim>\<open>Param\<close> and the module \<^verbatim>\<open>transforms\<close> are not
  among the sources. A parameter holds an array and, when the constructor passes one, a
  transform. The only transform the model names is \<^verbatim>\<open>transforms.positive\<close>, by the spec
  a map from an unconstrained real free variable to a strictly positive effective value;
  the map itself is a parameter. Without a transform the effective value is the free
  variable.
\<close>

datatype transform = Positive

record param =
  array :: ndarray
  transform :: "transform option"

definition Param :: "ndarray \<Rightarrow> transform option \<Rightarrow> param" where
  "Param a t = \<lparr>array = a, transform = t\<rparr>"

definition effective_value :: "(real \<Rightarrow> real) \<Rightarrow> param \<Rightarrow> real \<Rightarrow> real" where
  "effective_value positive p x =
     (case transform p of None \<Rightarrow> x | Some Positive \<Rightarrow> positive x)"

section \<open>The model\<close>

record svgp =
  X :: ndarray
  Y :: ndarray
  kern :: kernel
  likelihood :: likelihood
  mean_function :: "ndarray \<Rightarrow> ndarray"
  q_diag :: bool
  whiten :: bool
  Z :: param
  num_latent :: nat
  num_inducing :: nat
  q_mu :: param
  q_sqrt :: param

subsection \<open>Construction\<close>

text \<open>
  The values the argument \<^verbatim>\<open>num_latent\<close> is given in practice: \<^verbatim>\<open>None\<close> (also the
  default), a bool or an int. \<^verbatim>\<open>x or y\<close> is \<^verbatim>\<open>x\<close> when \<^verbatim>\<open>x\<close> is truthy and else
  \<^verbatim>\<open>y\<close>, which is evaluated only then.
\<close>

datatype pyval = PyNone | PyBool bool | PyInt int

fun truthy :: "pyval \<Rightarrow> bool" where
  "truthy PyNone = False"
| "truthy (PyBool b) = b"
| "truthy (PyInt n) = (n \<noteq> 0)"

fun as_int :: "pyval \<Rightarrow> int option" where
  "as_int PyNone = None"
| "as_int (PyBool b) = Some (if b then 1 else 0)"
| "as_int (PyInt n) = Some n"

text \<open>A dimension given to \<^verbatim>\<open>np.zeros\<close>, \<^verbatim>\<open>np.ones\<close> or \<^verbatim>\<open>range\<close>: numpy raises on a negative one.\<close>

definition dimension :: "int \<Rightarrow> nat option" where
  "dimension n = (if n < 0 then None else Some (nat n))"

text \<open>
  \<^verbatim>\<open>SVGP.__init__\<close>. The call \<^verbatim>\<open>GPModel.__init__\<close> stores the data, the kernel, the
  likelihood and the mean function (the methods below read them back from \<^verbatim>\<open>self\<close>).
  The defaults of the source are \<^verbatim>\<open>num_latent=None\<close>, \<^verbatim>\<open>q_diag=False\<close>, \<^verbatim>\<open>whiten=True\<close>.
  The result is \<open>None\<close> when the constructor raises.
\<close>

definition SVGP_init ::
  "ndarray \<Rightarrow> ndarray \<Rightarrow> kernel \<Rightarrow> likelihood \<Rightarrow> ndarray \<Rightarrow> (ndarray \<Rightarrow> ndarray)
     \<Rightarrow> pyval \<Rightarrow> bool \<Rightarrow> bool \<Rightarrow> svgp option" where
  "SVGP_init Xd Yd kn lik Zs mf nl qd wh = do {
     nlat \<leftarrow> (if truthy nl then as_int nl else map_option int (shape_at Yd 1));
     ninducing \<leftarrow> shape_at Zs 0;
     l \<leftarrow> dimension nlat;
     qsqrt \<leftarrow> (if qd then Some (Param (np_ones [ninducing, l]) (Some Positive))
               else map_option (\<lambda>a. Param a None)
                      (np_swapaxes02 (np_array (map (\<lambda>_. np_eye ninducing) [0..<l]))));
     Some \<lparr>X = Xd, Y = Yd, kern = kn, likelihood = lik, mean_function = mf,
           q_diag = qd, whiten = wh, Z = Param Zs None,
           num_latent = l, num_inducing = ninducing,
           q_mu = Param (np_zeros [ninducing, l]) None, q_sqrt = qsqrt\<rparr>
   }"

subsection \<open>The prior KL divergence\<close>

text \<open>
  \<^verbatim>\<open>SVGP.build_prior_KL\<close>. The accumulator \<open>KL\<close> is updated statement by statement as in
  the source; the two loops over the latent functions are folds over \<^verbatim>\<open>range(num_latent)\<close>.
\<close>

definition build_prior_KL :: "backend \<Rightarrow> svgp \<Rightarrow> (factor_log, real) state" where
  "build_prior_KL bk m =
     (if whiten m then
        (let KL = 0.5 * tf_reduce_sum (tf_square (array (q_mu m)));
             KL = KL - 0.5 * real (num_inducing m) * real (num_latent m)
         in if q_diag m then
              State_Monad.return
                (KL + (- 0.5 * tf_reduce_sum (tf_log (tf_square (array (q_sqrt m))))
                       + 0.5 * tf_reduce_sum (tf_square (array (q_sqrt m)))))
            else
              State_Monad.return
                (fold (\<lambda>d KL.
                    let Lq = triangle (slice_last (array (q_sqrt m)) d) Lower;
                        KL = KL - 0.5 * tf_reduce_sum (tf_log (tf_square (get_diag Lq)));
                        KL = KL + 0.5 * tf_reduce_sum (tf_square Lq)
                    in KL) [0..<num_latent m] KL))
      else do {
        L \<leftarrow> tf_cholesky (cholesky bk)
               (tf_add (K (kern m) (array (Z m)))
                       (tf_mul (eye (num_inducing m)) (tf_constant jitter)));
        let alpha = triangular_solve bk L (array (q_mu m)) Lower;
        let KL = 0.5 * tf_reduce_sum (tf_square alpha);
        let KL = KL + real (num_latent m) * 0.5 * tf_reduce_sum (tf_log (tf_square (get_diag L)));
        let KL = KL - 0.5 * real (num_inducing m) * real (num_latent m);
        if q_diag m then do {
          let L_inv = triangular_solve bk L (eye (num_inducing m)) Lower;
          let K_inv = triangular_solve bk (tf_transpose L) L_inv Upper;
          let KL = KL - 0.5 * tf_reduce_sum (tf_log (tf_square (array (q_sqrt m))));
          let KL = KL + 0.5 * tf_reduce_sum
                      (tf_mul (tf_expand_dims (get_diag K_inv) 1) (tf_square (array (q_sqrt m))));
          State_Monad.return KL
        } else
          State_Monad.return
            (fold (\<lambda>d KL.
                let Lq = triangle (slice_last (array (q_sqrt m)) d) Lower;
                    KL = KL + (- 0.5 * tf_reduce_sum (tf_log (tf_square (get_diag Lq))));
                    LiLq = triangular_solve bk L Lq Lower;
                    KL = KL + 0.5 * tf_reduce_sum (tf_square LiLq)
                in KL) [0..<num_latent m] KL)
      })"

subsection \<open>The bound and the prediction\<close>

text \<open>\<^verbatim>\<open>SVGP.build_likelihood\<close> and \<^verbatim>\<open>SVGP.build_predict\<close>.\<close>

definition build_likelihood :: "backend \<Rightarrow> svgp \<Rightarrow> (factor_log, real) state" where
  "build_likelihood bk m = do {
     KL \<leftarrow> build_prior_KL bk m;
     (fmean, fvar) \<leftarrow>
       (if whiten m then
          gaussian_gp_predict_whitened bk (X m) (array (Z m)) (kern m)
            (array (q_mu m)) (array (q_sqrt m)) (num_latent m)
        else
          gaussian_gp_predict bk (X m) (array (Z m)) (kern m)
            (array (q_mu m)) (array (q_sqrt m)) (num_latent m));
     let fmean = tf_add fmean (mean_function m (X m));
     let variational_expectations =
           variational_expectations (likelihood m) fmean fvar (Y m);
     State_Monad.return (tf_reduce_sum variational_expectations - KL)
   }"

definition build_predict :: "backend \<Rightarrow> svgp \<Rightarrow> ndarray \<Rightarrow> (factor_log, ndarray \<times> ndarray) state" where
  "build_predict bk m Xnew = do {
     (mu, var) \<leftarrow>
       (if whiten m then
          gaussian_gp_predict_whitened bk Xnew (array (Z m)) (kern m)
            (array (q_mu m)) (array (q_sqrt m)) (num_latent m)
        else
          gaussian_gp_predict bk Xnew (array (Z m)) (kern m)
            (array (q_mu m)) (array (q_sqrt m)) (num_latent m));
     State_Monad.return (tf_add mu (mean_function m Xnew), var)
   }"

section \<open>Notions used to state the properties\<close>

text \<open>
  The matrix that \<^verbatim>\<open>build_prior_KL\<close> hands to \<^verbatim>\<open>tf.cholesky\<close>, as the source writes it,
  and the factor the back end returns for it.
\<close>

definition jittered_gram :: "svgp \<Rightarrow> ndarray" where
  "jittered_gram m =
     tf_add (K (kern m) (array (Z m))) (tf_mul (eye (num_inducing m)) (tf_constant jitter))"

definition prior_factor :: "backend \<Rightarrow> svgp \<Rightarrow> ndarray" where
  "prior_factor bk m = cholesky bk (jittered_gram m)"

text \<open>
  The closed form the spec gives for the natural, diagonal case, written with explicit
  sums over the inducing index \<open>i\<close> and the latent index \<open>d\<close>. This definition follows the
  words of the spec, not the source.
\<close>

definition spec_KL_natural_diag :: "backend \<Rightarrow> svgp \<Rightarrow> real" where
  "spec_KL_natural_diag bk m =
     (let M = num_inducing m; Ll = num_latent m;
          Kz = K (kern m) (array (Z m));
          L = cholesky bk
                (mk_array [M, M] (ix2 (\<lambda>i j. elem Kz [i, j] + (if i = j then jitter else 0))));
          alpha = triangular_solve bk L (array (q_mu m)) Lower;
          K_inv = triangular_solve bk (tf_transpose L) (triangular_solve bk L (eye M) Lower) Upper;
          s = array (q_sqrt m)
      in 0.5 * (\<Sum>i<M. \<Sum>d<Ll. (elem alpha [i, d])\<^sup>2)
         + real Ll * (\<Sum>i<M. ln \<bar>elem L [i, i]\<bar>)
         - 0.5 * real M * real Ll
         - 0.5 * (\<Sum>i<M. \<Sum>d<Ll. ln ((elem s [i, d])\<^sup>2))
         + 0.5 * (\<Sum>i<M. \<Sum>d<Ll. elem K_inv [i, i] * (elem s [i, d])\<^sup>2))"

text \<open>
  Contracts of the linear-algebra primitives: \<open>Xs\<close> solves \<open>T \<cdot> Xs = B\<close> for an
  \<open>n \<times> n\<close> matrix \<open>T\<close> and \<open>c\<close> right-hand sides; \<open>L\<close> is lower triangular with a
  nonzero diagonal; \<open>L \<cdot> L\<^sup>T = A\<close>.
\<close>

definition is_solution :: "nat \<Rightarrow> nat \<Rightarrow> ndarray \<Rightarrow> ndarray \<Rightarrow> ndarray \<Rightarrow> bool" where
  "is_solution n c T Xs B \<longleftrightarrow>
     shape Xs = [n, c]
     \<and> (\<forall>i<n. \<forall>j<c. (\<Sum>k<n. elem T [i, k] * elem Xs [k, j]) = elem B [i, j])"

definition lower_triangular :: "nat \<Rightarrow> ndarray \<Rightarrow> bool" where
  "lower_triangular n L \<longleftrightarrow>
     shape L = [n, n] \<and> (\<forall>i<n. \<forall>j<n. i < j \<longrightarrow> elem L [i, j] = 0) \<and> (\<forall>i<n. elem L [i, i] \<noteq> 0)"

definition is_cholesky_factor :: "nat \<Rightarrow> ndarray \<Rightarrow> ndarray \<Rightarrow> bool" where
  "is_cholesky_factor n A L \<longleftrightarrow>
     shape L = [n, n]
     \<and> (\<forall>i<n. \<forall>j<n. elem A [i, j] = (\<Sum>k<n. elem L [i, k] * elem L [j, k]))"

text \<open>The diagonal matrix \<open>diag(s_d)\<close> of column \<open>d\<close> of an \<open>M \<times> L\<close> array \<open>s\<close>.\<close>

definition diag_matrix :: "ndarray \<Rightarrow> nat \<Rightarrow> ndarray" where
  "diag_matrix s d = mk_array [rows s, rows s] (ix2 (\<lambda>i j. if i = j then elem s [i, d] else 0))"

section \<open>A reference back end and a sample model\<close>

text \<open>
  The theorems below hold for every back end. To instantiate them, the primitives are
  given reference implementations: Cholesky--Banachiewicz, forward and back substitution,
  each a loop over the rows that appends the finished row to the rows done so far.
\<close>

definition reference_cholesky :: "ndarray \<Rightarrow> ndarray" where
  "reference_cholesky A =
     (let n = rows A;
          ls = fold (\<lambda>i acc. acc @ [fold (\<lambda>j row. row @ [
                  let s = sum_list (map (\<lambda>k. row ! k * (if j = i then row ! k else acc ! j ! k))
                                     [0..<j])
                  in if j = i then sqrt (elem A [i, i] - s) else (elem A [i, j] - s) / acc ! j ! j])
                [0..<Suc i] []]) [0..<n] []
      in mk_array [n, n] (ix2 (\<lambda>i j. if j \<le> i then ls ! i ! j else 0)))"

definition forward_substitution :: "ndarray \<Rightarrow> ndarray \<Rightarrow> ndarray" where
  "forward_substitution T B =
     (let n = rows T; c = cols B;
          xs = fold (\<lambda>i acc. acc @ [map (\<lambda>j. (elem B [i, j]
                       - sum_list (map (\<lambda>k. elem T [i, k] * acc ! k ! j) [0..<i])) / elem T [i, i])
                     [0..<c]]) [0..<n] []
      in mk_array [n, c] (ix2 (\<lambda>i j. xs ! i ! j)))"

definition back_substitution :: "ndarray \<Rightarrow> ndarray \<Rightarrow> ndarray" where
  "back_substitution U B =
     (let n = rows U; c = cols B;
          xs = fold (\<lambda>i acc. map (\<lambda>j. (elem B [i, j]
                       - sum_list (map (\<lambda>k. elem U [i, k] * acc ! (k - Suc i) ! j) [Suc i..<n]))
                         / elem U [i, i])
                     [0..<c] # acc) (rev [0..<n]) []
      in mk_array [n, c] (ix2 (\<lambda>i j. xs ! i ! j)))"

text \<open>
  Modelled from the spec: the module \<^verbatim>\<open>conditionals\<close> is not among the sources. By the
  spec the whitened predictor first factors \<open>K(Z) + jitter\<cdot>I\<close>; the natural predictor is to
  work from the factor of the prior KL and is given no factorization of its own. The call
  sites in \<^verbatim>\<open>build_likelihood\<close> and \<^verbatim>\<open>build_predict\<close> fix the arguments: the query
  inputs, the inducing inputs, the kernel, \<open>q_mu\<close>, \<open>q_sqrt\<close> and the number of latent
  functions. The spec does not give the predictive equations; the reference predictors
  return the mean and the variance of the prior.
\<close>

definition prior_moments :: "ndarray \<Rightarrow> kernel \<Rightarrow> nat \<Rightarrow> ndarray \<times> ndarray" where
  "prior_moments Xnew kn n =
     (np_zeros [rows Xnew, n], mk_array [rows Xnew, n] (ix2 (\<lambda>i d. elem (Kdiag kn Xnew) [i])))"

definition reference_predict :: predictor where
  "reference_predict Xnew Zs kn qmu qsqrt num_columns =
     State_Monad.return (prior_moments Xnew kn num_columns)"

definition reference_predict_whitened :: predictor where
  "reference_predict_whitened Xnew Zs kn qmu qsqrt num_columns = do {
     Lm \<leftarrow> tf_cholesky reference_cholesky
             (tf_add (K kn Zs) (tf_mul (eye (rows Zs)) (tf_constant jitter)));
     State_Monad.return (prior_moments Xnew kn num_columns)
   }"

definition reference_backend :: backend where
  "reference_backend =
     \<lparr>cholesky = reference_cholesky,
      triangular_solve = (\<lambda>T B t. case t of Lower \<Rightarrow> forward_substitution T B
                                          | Upper \<Rightarrow> back_substitution T B),
      gaussian_gp_predict = reference_predict,
      gaussian_gp_predict_whitened = reference_predict_whitened\<rparr>"

text \<open>
  A sample model: three data points and two inducing points in the plane, two latent
  functions, a linear kernel whose diagonal is lowered by the jitter (so that the
  factored matrix is \<open>Z \<cdot> Z\<^sup>T\<close>, with an exact factor), a Gaussian likelihood and the
  zero mean function.
\<close>

definition of_rows :: "real list list \<Rightarrow> ndarray" where
  "of_rows rs =
     mk_array [length rs, (case rs of [] \<Rightarrow> 0 | r # _ \<Rightarrow> length r)] (ix2 (\<lambda>i j. rs ! i ! j))"

definition linear_kernel :: kernel where
  "linear_kernel =
     \<lparr>K = (\<lambda>a. mk_array [rows a, rows a]
               (ix2 (\<lambda>i j. sum_list (map (\<lambda>k. elem a [i, k] * elem a [j, k]) [0..<cols a])
                            - (if i = j then jitter else 0)))),
      K_cross = (\<lambda>a b. mk_array [rows a, rows b]
               (ix2 (\<lambda>i j. sum_list (map (\<lambda>k. elem a [i, k] * elem b [j, k]) [0..<cols a])))),
      Kdiag = (\<lambda>a. mk_array [rows a]
               (ix1 (\<lambda>i. sum_list (map (\<lambda>k. (elem a [i, k])\<^sup>2) [0..<cols a]) - jitter)))\<rparr>"

definition gaussian_likelihood :: likelihood where
  "gaussian_likelihood =
     \<lparr>variational_expectations = (\<lambda>Fmu Fvar Ys.
        mk_array (shape Ys) (\<lambda>idx. - 0.5 * ((elem Ys idx - elem Fmu idx)\<^sup>2 + elem Fvar idx)))\<rparr>"

definition zero_mean :: "ndarray \<Rightarrow> ndarray" where
  "zero_mean Xs = np_zeros [rows Xs, 1]"

definition sample_X :: ndarray where
  "sample_X = of_rows [[0, 1], [1, 0], [1, 1]]"

definition sample_Y :: ndarray where
  "sample_Y = of_rows [[1, 0], [0, 1], [1, 1]]"

definition sample_Z :: ndarray where
  "sample_Z = of_rows [[2, 0], [1, 2]]"

definition sample_model :: "pyval \<Rightarrow> bool \<Rightarrow> bool \<Rightarrow> svgp" where
  "sample_model nl qd wh =
     the (SVGP_init sample_X sample_Y linear_kernel gaussian_likelihood sample_Z zero_mean nl qd wh)"

section \<open>Facts about arrays\<close>

lemma ix1_simp [simp]: "ix1 f [i] = f i"
  by (simp add: ix1_def)

lemma ix2_simp [simp]: "ix2 f [i, j] = f i j"
  by (simp add: ix2_def)

lemma shape_mk_array [simp]: "shape (mk_array shp f) = shp"
  by (simp add: mk_array_def)

lemma elem_mk_array: "elem (mk_array shp f) idx = (if valid_index shp idx then f idx else 0)"
  by (simp add: mk_array_def)

lemma valid_index_nil [simp]: "valid_index [] idx \<longleftrightarrow> idx = []"
  by (simp add: valid_index_def)

lemma valid_index_1 [simp]: "valid_index [n] [i] \<longleftrightarrow> i < n"
  by (simp add: valid_index_def)

lemma valid_index_2 [simp]: "valid_index [m, n] [i, j] \<longleftrightarrow> i < m \<and> j < n"
  by (simp add: valid_index_def)

lemma valid_index_3 [simp]: "valid_index [m, n, l] [i, j, k] \<longleftrightarrow> i < m \<and> j < n \<and> k < l"
  by (simp add: valid_index_def)

lemma valid_index_2_iff: "valid_index [m, n] idx \<longleftrightarrow> (\<exists>i j. idx = [i, j] \<and> i < m \<and> j < n)"
  by (auto simp: valid_index_def list_all2_Cons2)

lemma mk_array_cong:
  "(\<And>idx. valid_index shp idx \<Longrightarrow> f idx = g idx) \<Longrightarrow> mk_array shp f = mk_array shp g"
  by (auto simp: mk_array_def fun_eq_iff)

lemma mk_array_cong_2:
  "(\<And>i j. i < m \<Longrightarrow> j < n \<Longrightarrow> f [i, j] = g [i, j]) \<Longrightarrow> mk_array [m, n] f = mk_array [m, n] g"
  by (rule mk_array_cong) (auto simp: valid_index_2_iff)

lemma rows_mk_array [simp]: "rows (mk_array (n # ns) f) = n"
  by (simp add: rows_def)

lemma cols_mk_array [simp]: "cols (mk_array [m, n] f) = n"
  by (simp add: cols_def)

subsection \<open>Sums over all entries\<close>

lemma sum_list_upt: "sum_list (map f [0..<n]) = (\<Sum>i<n. f i)"
  by (simp add: interv_sum_list_conv_sum_set_nat atLeast0LessThan)

lemma sum_list_concat_map:
  "sum_list (concat xss) = sum_list (map sum_list (xss :: real list list))"
  by (induction xss) simp_all

lemma indices_1: "indices [n] = map (\<lambda>i. [i]) [0..<n]"
  by (induction n) simp_all

lemma reduce_sum_1: "shape a = [n] \<Longrightarrow> tf_reduce_sum a = (\<Sum>i<n. elem a [i])"
  by (simp add: tf_reduce_sum_def indices_1 comp_def sum_list_upt del: indices.simps)

lemma reduce_sum_2:
  assumes "shape a = [m, n]"
  shows "tf_reduce_sum a = (\<Sum>i<m. \<Sum>j<n. elem a [i, j])"
proof -
  have "indices [m, n] = concat (map (\<lambda>i. map (\<lambda>j. [i, j]) [0..<n]) [0..<m])"
    by (simp add: indices_1 comp_def del: upt_Suc)
  then have "tf_reduce_sum a
      = sum_list (map (\<lambda>i. sum_list (map (\<lambda>j. elem a [i, j]) [0..<n])) [0..<m])"
    using assms
    by (simp add: tf_reduce_sum_def map_concat sum_list_concat_map comp_def del: indices.simps)
  then show ?thesis
    by (simp add: sum_list_upt)
qed

lemma reduce_sum_mk_1: "tf_reduce_sum (mk_array [n] f) = (\<Sum>i<n. f [i])"
  by (simp add: reduce_sum_1 elem_mk_array)

lemma reduce_sum_mk_2: "tf_reduce_sum (mk_array [m, n] f) = (\<Sum>i<m. \<Sum>j<n. f [i, j])"
  by (simp add: reduce_sum_2 elem_mk_array)

lemma reduce_sum_square_2:
  "shape a = [m, n] \<Longrightarrow> tf_reduce_sum (tf_square a) = (\<Sum>i<m. \<Sum>j<n. (elem a [i, j])\<^sup>2)"
  by (simp add: tf_square_def reduce_sum_mk_2)

lemma reduce_sum_log_square_2:
  "shape a = [m, n]
     \<Longrightarrow> tf_reduce_sum (tf_log (tf_square a)) = (\<Sum>i<m. \<Sum>j<n. ln ((elem a [i, j])\<^sup>2))"
  by (simp add: tf_square_def tf_log_def reduce_sum_mk_2 elem_mk_array)

lemma ln_abs_real: "ln \<bar>x :: real\<bar> = ln x"
  by (simp add: ln_real_def)

lemma reduce_sum_log_square_diag:
  assumes "shape L = [n, n]"
  shows "tf_reduce_sum (tf_log (tf_square (get_diag L))) = 2 * (\<Sum>i<n. ln \<bar>elem L [i, i]\<bar>)"
  by (simp add: assms get_diag_def tf_square_def tf_log_def reduce_sum_mk_1 elem_mk_array
        ln_realpow ln_abs_real sum_distrib_left)

subsection \<open>Broadcasting\<close>

lemma broadcast_shape_scalar: "broadcast_shape s [] = s"
  by (induction s) (auto simp: broadcast_shape_def pad_shape_def Let_def zip_replicate2 map_idI)

lemma broadcast_index_scalar [simp]: "broadcast_index [] idx = []"
  by (simp add: broadcast_index_def)

lemma broadcast_shape_same2 [simp]: "broadcast_shape [m, n] [m, n] = [m, n]"
  by (simp add: broadcast_shape_def pad_shape_def)

lemma broadcast_shape_col [simp]: "broadcast_shape [m, Suc 0] [m, n] = [m, n]"
  by (simp add: broadcast_shape_def pad_shape_def)

lemma broadcast_index_2 [simp]: "i < m \<Longrightarrow> j < n \<Longrightarrow> broadcast_index [m, n] [i, j] = [i, j]"
  by (auto simp: broadcast_index_def)

lemma broadcast_index_col [simp]: "i < m \<Longrightarrow> broadcast_index [m, Suc 0] [i, j] = [i, 0]"
  by (auto simp: broadcast_index_def)

lemma jittered_gram_eq:
  assumes "shape Kz = [n, n]"
  shows "tf_add Kz (tf_mul (eye n) (tf_constant jitter))
       = mk_array [n, n] (ix2 (\<lambda>i j. elem Kz [i, j] + (if i = j then jitter else 0)))"
proof -
  have m: "tf_mul (eye n) (tf_constant jitter)
         = mk_array [n, n] (ix2 (\<lambda>i j. if i = j then jitter else 0))"
    unfolding tf_mul_def tf_binary_def eye_def np_eye_def tf_constant_def
    by (simp add: broadcast_shape_scalar, intro mk_array_cong_2) (simp add: elem_mk_array)
  show ?thesis
    unfolding m tf_add_def tf_binary_def
    by (simp add: assms, intro mk_array_cong_2) (simp add: elem_mk_array)
qed

lemma expand_dims_diag:
  assumes "shape Kinv = [m, m]"
  shows "tf_expand_dims (get_diag Kinv) (Suc 0)
       = mk_array [m, Suc 0] (ix2 (\<lambda>i j. elem Kinv [i, i]))"
  unfolding tf_expand_dims_def get_diag_def
  by (simp add: assms, intro mk_array_cong_2) (simp add: elem_mk_array)

lemma diag_times_square:
  assumes "shape Kinv = [m, m]" and "shape s = [m, n]"
  shows "tf_mul (tf_expand_dims (get_diag Kinv) (Suc 0)) (tf_square s)
       = mk_array [m, n] (ix2 (\<lambda>i d. elem Kinv [i, i] * (elem s [i, d])\<^sup>2))"
  unfolding expand_dims_diag [OF assms(1)] tf_mul_def tf_binary_def tf_square_def
  by (simp add: assms(2), intro mk_array_cong_2) (simp add: elem_mk_array)

lemma reduce_sum_diag_times_square:
  assumes "shape Kinv = [m, m]" and "shape s = [m, n]"
  shows "tf_reduce_sum (tf_mul (tf_expand_dims (get_diag Kinv) (Suc 0)) (tf_square s))
       = (\<Sum>i<m. \<Sum>d<n. elem Kinv [i, i] * (elem s [i, d])\<^sup>2)"
  by (simp add: diag_times_square [OF assms] reduce_sum_mk_2)

subsection \<open>Identity, transpose and diagonal matrices\<close>

lemma elem_eye: "i < n \<Longrightarrow> j < n \<Longrightarrow> elem (eye n) [i, j] = (if i = j then 1 else 0)"
  by (simp add: eye_def np_eye_def elem_mk_array)

lemma elem_transpose_2:
  "shape a = [m, n] \<Longrightarrow> i < n \<Longrightarrow> j < m \<Longrightarrow> elem (tf_transpose a) [i, j] = elem a [j, i]"
  by (simp add: tf_transpose_def elem_mk_array)

lemma shape_diag_matrix: "shape s = [n, l] \<Longrightarrow> shape (diag_matrix s d) = [n, n]"
  by (simp add: diag_matrix_def rows_def)

lemma elem_diag_matrix:
  "shape s = [n, l] \<Longrightarrow> i < n \<Longrightarrow> j < n
     \<Longrightarrow> elem (diag_matrix s d) [i, j] = (if i = j then elem s [i, d] else 0)"
  by (simp add: diag_matrix_def rows_def elem_mk_array)

lemma triangle_diag_matrix: "triangle (diag_matrix s d) Lower = diag_matrix s d"
  unfolding triangle_def diag_matrix_def
  by (simp, intro mk_array_cong_2) (simp add: elem_mk_array)

lemma log_det_diag_matrix:
  assumes "shape s = [n, l]"
  shows "tf_reduce_sum (tf_log (tf_square (get_diag (diag_matrix s d))))
       = (\<Sum>i<n. ln ((elem s [i, d])\<^sup>2))"
  by (simp add: get_diag_def shape_diag_matrix [OF assms] tf_square_def tf_log_def
        reduce_sum_mk_1 elem_mk_array elem_diag_matrix [OF assms])

lemma frobenius_diag_matrix:
  assumes "shape s = [n, l]"
  shows "tf_reduce_sum (tf_square (diag_matrix s d)) = (\<Sum>i<n. (elem s [i, d])\<^sup>2)"
proof -
  have "tf_reduce_sum (tf_square (diag_matrix s d))
      = (\<Sum>i<n. \<Sum>j<n. if j = i then (elem s [i, d])\<^sup>2 else 0)"
    unfolding reduce_sum_square_2 [OF shape_diag_matrix [OF assms]]
    by (intro sum.cong refl) (auto simp: elem_diag_matrix [OF assms])
  also have "\<dots> = (\<Sum>i<n. (elem s [i, d])\<^sup>2)"
    by (intro sum.cong refl) simp
  finally show ?thesis .
qed

section \<open>Facts about the constructor\<close>

lemma np_array_nonempty:
  "xs \<noteq> [] \<Longrightarrow> np_array xs
     = mk_array (length xs # shape (hd xs))
        (\<lambda>idx. case idx of [] \<Rightarrow> 0 | d # rest \<Rightarrow> elem (xs ! d) rest)"
  by (cases xs) (simp_all add: np_array_def)

lemma np_array_replicate:
  "0 < l \<Longrightarrow> np_array (map (\<lambda>_. a) [0..<l])
     = mk_array (l # shape a)
        (\<lambda>idx. case idx of [] \<Rightarrow> 0 | d # rest \<Rightarrow> elem (replicate l a ! d) rest)"
  by (cases l)
     (simp_all add: np_array_nonempty map_replicate_const
        del: upt_Suc replicate_Suc replicate.simps)

lemma stack_swapaxes:
  assumes "np_swapaxes02 (np_array (map (\<lambda>_. a) [0..<l])) = Some z" and "shape a = [r, c]"
  shows "0 < l" and "shape z = [c, r, l]"
    and "d < l \<Longrightarrow> i < c \<Longrightarrow> j < r \<Longrightarrow> elem z [i, j, d] = elem a [j, i]"
proof -
  show pos: "0 < l"
    using assms by (cases l) (simp_all add: np_array_def np_swapaxes02_def)
  have z: "z = mk_array [c, r, l]
             (\<lambda>idx. elem (mk_array [l, r, c] (\<lambda>idx. case idx of [] \<Rightarrow> 0
                           | d # rest \<Rightarrow> elem (replicate l a ! d) rest)) (swap02 idx))"
    using assms by (auto simp: np_array_replicate [OF pos] np_swapaxes02_def)
  show "shape z = [c, r, l]"
    by (simp add: z)
  show "elem z [i, j, d] = elem a [j, i]" if "d < l" "i < c" "j < r"
    using that by (simp add: z elem_mk_array)
qed

lemma eye_stack:
  assumes "np_swapaxes02 (np_array (map (\<lambda>_. np_eye n) [0..<l])) = Some z"
  shows "0 < l" and "shape z = [n, n, l]" and "d < l \<Longrightarrow> slice_last z d = np_eye n"
proof -
  have s: "shape (np_eye n) = [n, n]"
    by (simp add: np_eye_def)
  show "0 < l" and sz: "shape z = [n, n, l]"
    using stack_swapaxes(1,2) [OF assms s] by simp_all
  show "slice_last z d = np_eye n" if "d < l"
  proof -
    have "elem z [i, j, d] = (if i = j then 1 else 0)" if "i < n" "j < n" for i j
      using stack_swapaxes(3) [OF assms s \<open>d < l\<close> that] that
      by (auto simp: np_eye_def elem_mk_array)
    then have "mk_array [n, n] (ix2 (\<lambda>i j. elem z [i, j, d]))
             = mk_array [n, n] (ix2 (\<lambda>i j. if i = j then 1 else 0))"
      by (intro mk_array_cong_2) simp
    then show ?thesis
      by (simp add: slice_last_def np_eye_def sz)
  qed
qed

lemma SVGP_init_fields:
  assumes "SVGP_init Xd Yd kn lik Zs mf nl qd wh = Some m"
  shows "X m = Xd" and "Y m = Yd" and "kern m = kn" and "likelihood m = lik"
    and "mean_function m = mf" and "q_diag m = qd" and "whiten m = wh" and "array (Z m) = Zs"
    and "transform (q_sqrt m) = (if qd then Some Positive else None)"
  using assms
  by (auto simp: SVGP_init_def Param_def bind_eq_Some_conv split: if_splits)

lemma SVGP_init_arrays:
  assumes "SVGP_init Xd Yd kn lik Zs mf nl qd wh = Some m"
  shows "shape_at Zs 0 = Some (num_inducing m)"
    and "array (q_mu m) = np_zeros [num_inducing m, num_latent m]"
    and "qd \<Longrightarrow> array (q_sqrt m) = np_ones [num_inducing m, num_latent m]"
    and "\<not> qd \<Longrightarrow> shape (array (q_sqrt m)) = [num_inducing m, num_inducing m, num_latent m]"
    and "\<not> qd \<Longrightarrow> d < num_latent m \<Longrightarrow> slice_last (array (q_sqrt m)) d = np_eye (num_inducing m)"
  using assms
  by (auto simp: SVGP_init_def Param_def dimension_def bind_eq_Some_conv eye_stack
      split: if_splits)

lemma SVGP_init_num_latent:
  assumes "SVGP_init Xd Yd kn lik Zs mf nl qd wh = Some m"
  shows "if truthy nl then as_int nl = Some (int (num_latent m))
         else shape_at Yd 1 = Some (num_latent m)"
  using assms
  by (auto simp: SVGP_init_def dimension_def bind_eq_Some_conv split: if_splits)

lemma SVGP_init_default:
  assumes "\<not> truthy nl" and "1 < length (shape Yd)" and "0 < length (shape Zs)"
    and "qd \<or> 0 < shape Yd ! 1"
  shows "map_option num_latent (SVGP_init Xd Yd kn lik Zs mf nl qd wh) = Some (shape Yd ! 1)"
  using assms
  by (auto simp: SVGP_init_def Param_def dimension_def shape_at_def np_swapaxes02_def
        np_array_replicate np_eye_def)

section \<open>Facts about the sample model\<close>

lemma of_rows_22:
  "of_rows [[a, b], [c, d]] = mk_array [2, 2] (ix2 (\<lambda>i j. [[a, b], [c, d]] ! i ! j))"
  by (simp add: of_rows_def numeral_2_eq_2)

lemma sample_shapes: "shape sample_X = [3, 2]" "shape sample_Y = [3, 2]" "shape sample_Z = [2, 2]"
  by (simp_all add: sample_X_def sample_Y_def sample_Z_def of_rows_def numeral_2_eq_2 numeral_3_eq_3)

lemma sample_init:
  assumes "\<not> truthy nl"
  shows "SVGP_init sample_X sample_Y linear_kernel gaussian_likelihood sample_Z zero_mean nl qd wh
       = Some (sample_model nl qd wh)"
proof -
  have "map_option num_latent
          (SVGP_init sample_X sample_Y linear_kernel gaussian_likelihood sample_Z zero_mean nl qd wh)
        = Some (shape sample_Y ! 1)"
    by (rule SVGP_init_default) (simp_all add: assms sample_shapes)
  then show ?thesis
    by (auto simp: sample_model_def)
qed

lemma sample_dims:
  assumes "\<not> truthy nl"
  shows "num_inducing (sample_model nl qd wh) = 2" and "num_latent (sample_model nl qd wh) = 2"
  using SVGP_init_arrays(1) [OF sample_init [OF assms, of qd wh]]
    SVGP_init_num_latent [OF sample_init [OF assms, of qd wh]] assms
  by (simp_all add: shape_at_def sample_shapes)

lemma sample_q_mu:
  assumes "\<not> truthy nl"
  shows "array (q_mu (sample_model nl qd wh)) = np_zeros [2, 2]"
  using SVGP_init_arrays(2) [OF sample_init [OF assms, of qd wh]] by (simp add: sample_dims assms)

lemma sample_q_sqrt_diag:
  assumes "\<not> truthy nl"
  shows "array (q_sqrt (sample_model nl True wh)) = np_ones [2, 2]"
  using SVGP_init_arrays(3) [OF sample_init [OF assms, of True wh]] by (simp add: sample_dims assms)

lemma sample_q_sqrt_full:
  assumes "\<not> truthy nl" and "d < 2"
  shows "slice_last (array (q_sqrt (sample_model nl False wh))) d = np_eye 2"
  using SVGP_init_arrays(5) [OF sample_init [OF assms(1), of False wh], of d] assms
  by (simp add: sample_dims)

section \<open>Facts about the evaluation\<close>

lemma run_tf_cholesky [simp]: "run_state (tf_cholesky chol a) fs = (chol a, fs @ [a])"
  by (simp add: tf_cholesky_def)

lemma prior_KL_log:
  "snd (run_state (build_prior_KL bk m) fs) = (if whiten m then fs else fs @ [jittered_gram m])"
  by (simp add: build_prior_KL_def jittered_gram_def Let_def split_beta)

lemma prior_KL_natural_diag:
  assumes "\<not> whiten m" and "q_diag m"
  shows "fst (run_state (build_prior_KL bk m) fs) =
     (let L = prior_factor bk m;
          alpha = triangular_solve bk L (array (q_mu m)) Lower;
          K_inv = triangular_solve bk (tf_transpose L)
                    (triangular_solve bk L (eye (num_inducing m)) Lower) Upper
      in 0.5 * tf_reduce_sum (tf_square alpha)
         + real (num_latent m) * 0.5 * tf_reduce_sum (tf_log (tf_square (get_diag L)))
         - 0.5 * real (num_inducing m) * real (num_latent m)
         - 0.5 * tf_reduce_sum (tf_log (tf_square (array (q_sqrt m))))
         + 0.5 * tf_reduce_sum (tf_mul (tf_expand_dims (get_diag K_inv) 1)
                                   (tf_square (array (q_sqrt m)))))"
  using assms by (simp add: build_prior_KL_def prior_factor_def jittered_gram_def Let_def)



lemma fold_accumulate:
  assumes "\<And>d acc. d < n \<Longrightarrow> body d acc = acc + g d"
  shows "fold body [0..<n] k = k + (\<Sum>d<n. g d :: real)"
  using assms by (induction n) simp_all

lemma accumulate_swap:
  fixes a :: "nat \<Rightarrow> nat \<Rightarrow> real" and b :: "nat \<Rightarrow> real"
  shows "(\<Sum>d<l. - 0.5 * (\<Sum>i<n. a i d) + 0.5 * b d)
       = - 0.5 * (\<Sum>i<n. \<Sum>d<l. a i d) + 0.5 * (\<Sum>d<l. b d)"
proof -
  have "(\<Sum>d<l. - 0.5 * (\<Sum>i<n. a i d) + 0.5 * b d)
      = - 0.5 * (\<Sum>d<l. \<Sum>i<n. a i d) + 0.5 * (\<Sum>d<l. b d)"
    unfolding sum.distrib sum_distrib_left ..
  also have "(\<Sum>d<l. \<Sum>i<n. a i d) = (\<Sum>i<n. \<Sum>d<l. a i d)"
    by (rule sum.swap)
  finally show ?thesis .
qed

section \<open>Triangular systems\<close>

text \<open>A lower triangular system with a nonzero diagonal has at most one solution.\<close>

lemma lower_unique:
  fixes l :: "nat \<Rightarrow> nat \<Rightarrow> real"
  assumes lt: "\<And>i k. i < n \<Longrightarrow> k < n \<Longrightarrow> i < k \<Longrightarrow> l i k = 0"
    and nz: "\<And>i. i < n \<Longrightarrow> l i i \<noteq> 0"
    and eq: "\<And>i. i < n \<Longrightarrow> (\<Sum>k<n. l i k * x k) = (\<Sum>k<n. l i k * y k)"
  shows "i < n \<Longrightarrow> x i = y i"
proof (induction i rule: less_induct)
  case (less i)
  have split: "(\<Sum>k<n. l i k * z k) = (\<Sum>k<i. l i k * z k) + l i i * z i" for z
  proof -
    have "(\<Sum>k<n. l i k * z k) = (\<Sum>k\<in>{..<Suc i}. l i k * z k)"
      using less.prems by (intro sum.mono_neutral_right) (auto simp: lt)
    then show ?thesis by simp
  qed
  have "(\<Sum>k<i. l i k * x k) = (\<Sum>k<i. l i k * y k)"
    using less by (intro sum.cong) auto
  with eq [OF less.prems] have "l i i * x i = l i i * y i"
    by (simp add: split)
  then show ?case
    using nz [OF less.prems] by simp
qed

text \<open>Solving against \<open>diag(s_d)\<close> scales the columns of the solution against the identity.\<close>

lemma column_scaling:
  assumes L: "lower_triangular n L"
    and X1: "is_solution n n L X1 (eye n)"
    and X2: "is_solution n n L X2 (diag_matrix s d)"
    and s: "shape s = [n, l]"
    and i: "i < n" and j: "j < n"
  shows "elem X2 [i, j] = elem X1 [i, j] * elem s [j, d]"
proof (rule lower_unique [where l = "\<lambda>i k. elem L [i, k]" and n = n
      and x = "\<lambda>k. elem X2 [k, j]" and y = "\<lambda>k. elem X1 [k, j] * elem s [j, d]"])
  show "elem L [a, k] = 0" if "a < n" "k < n" "a < k" for a k
    using L that by (simp add: lower_triangular_def)
  show "elem L [a, a] \<noteq> 0" if "a < n" for a
    using L that by (simp add: lower_triangular_def)
  show "(\<Sum>k<n. elem L [a, k] * elem X2 [k, j])
      = (\<Sum>k<n. elem L [a, k] * (elem X1 [k, j] * elem s [j, d]))" if "a < n" for a
  proof -
    have "(\<Sum>k<n. elem L [a, k] * (elem X1 [k, j] * elem s [j, d]))
        = (\<Sum>k<n. elem L [a, k] * elem X1 [k, j]) * elem s [j, d]"
      by (simp add: sum_distrib_right mult.assoc)
    also have "\<dots> = elem (eye n) [a, j] * elem s [j, d]"
      using X1 that j by (simp add: is_solution_def)
    also have "\<dots> = elem (diag_matrix s d) [a, j]"
      using that j by (simp add: elem_eye elem_diag_matrix [OF s])
    also have "\<dots> = (\<Sum>k<n. elem L [a, k] * elem X2 [k, j])"
      using X2 that j by (simp add: is_solution_def)
    finally show ?thesis by simp
  qed
  show "i < n" by (rule i)
qed

text \<open>The matrix obtained by the two solves is \<open>X1\<^sup>T \<cdot> X1\<close>.\<close>

lemma inverse_gram_entry:
  assumes L: "shape L = [n, n]"
    and X1: "is_solution n n L X1 (eye n)"
    and Kinv: "is_solution n n (tf_transpose L) Kinv X1"
    and a: "a < n" and b: "b < n"
  shows "elem Kinv [a, b] = (\<Sum>k<n. elem X1 [k, a] * elem X1 [k, b])"
proof -
  have "(\<Sum>k<n. elem X1 [k, a] * elem X1 [k, b])
      = (\<Sum>k<n. elem X1 [k, a] * (\<Sum>c<n. elem (tf_transpose L) [k, c] * elem Kinv [c, b]))"
    using Kinv b by (simp add: is_solution_def)
  also have "\<dots> = (\<Sum>k<n. \<Sum>c<n. elem X1 [k, a] * (elem L [c, k] * elem Kinv [c, b]))"
    by (simp add: sum_distrib_left elem_transpose_2 [OF L])
  also have "\<dots> = (\<Sum>c<n. \<Sum>k<n. elem X1 [k, a] * (elem L [c, k] * elem Kinv [c, b]))"
    by (rule sum.swap)
  also have "\<dots> = (\<Sum>c<n. (\<Sum>k<n. elem L [c, k] * elem X1 [k, a]) * elem Kinv [c, b])"
    by (simp add: sum_distrib_left sum_distrib_right mult_ac)
  also have "\<dots> = (\<Sum>c<n. elem (eye n) [c, a] * elem Kinv [c, b])"
    using X1 a by (simp add: is_solution_def)
  also have "\<dots> = (\<Sum>c<n. if c = a then elem Kinv [a, b] else 0)"
    using a by (intro sum.cong) (auto simp: elem_eye)
  also have "\<dots> = elem Kinv [a, b]"
    using a by simp
  finally show ?thesis by simp
qed

lemma natural_trace_terms:
  assumes L: "lower_triangular n L"
    and X1: "is_solution n n L X1 (eye n)"
    and Kinv: "is_solution n n (tf_transpose L) Kinv X1"
    and X2: "\<And>d. d < l \<Longrightarrow> is_solution n n L (X2 d) (diag_matrix s d)"
    and s: "shape s = [n, l]"
  shows "(\<Sum>d<l. \<Sum>i<n. \<Sum>j<n. (elem (X2 d) [i, j])\<^sup>2)
       = (\<Sum>i<n. \<Sum>d<l. elem Kinv [i, i] * (elem s [i, d])\<^sup>2)"
proof -
  have shL: "shape L = [n, n]"
    using L by (simp add: lower_triangular_def)
  have "(\<Sum>d<l. \<Sum>i<n. \<Sum>j<n. (elem (X2 d) [i, j])\<^sup>2)
      = (\<Sum>d<l. \<Sum>i<n. \<Sum>j<n. (elem X1 [i, j])\<^sup>2 * (elem s [j, d])\<^sup>2)"
    by (intro sum.cong refl) (simp add: column_scaling [OF L X1 X2 s] power_mult_distrib)
  also have "\<dots> = (\<Sum>d<l. \<Sum>j<n. \<Sum>i<n. (elem X1 [i, j])\<^sup>2 * (elem s [j, d])\<^sup>2)"
    by (intro sum.cong refl sum.swap)
  also have "\<dots> = (\<Sum>j<n. \<Sum>d<l. \<Sum>i<n. (elem X1 [i, j])\<^sup>2 * (elem s [j, d])\<^sup>2)"
    by (rule sum.swap)
  also have "\<dots> = (\<Sum>j<n. \<Sum>d<l. elem Kinv [j, j] * (elem s [j, d])\<^sup>2)"
    by (intro sum.cong refl)
       (simp add: inverse_gram_entry [OF shL X1 Kinv] sum_distrib_right power2_eq_square)
  finally show ?thesis .
qed

text \<open>With \<open>L \<cdot> L\<^sup>T = A\<close>, the matrix obtained by the two solves is a right inverse of \<open>A\<close>.\<close>

lemma inverse_of_gram:
  assumes chol: "is_cholesky_factor n A L"
    and X1: "is_solution n n L X1 (eye n)"
    and Kinv: "is_solution n n (tf_transpose L) Kinv X1"
  shows "is_solution n n A Kinv (eye n)"
proof -
  have shL: "shape L = [n, n]"
    using chol by (simp add: is_cholesky_factor_def)
  have "(\<Sum>k<n. elem A [i, k] * elem Kinv [k, j]) = elem (eye n) [i, j]"
    if i: "i < n" and j: "j < n" for i j
  proof -
    have "(\<Sum>k<n. elem A [i, k] * elem Kinv [k, j])
        = (\<Sum>k<n. (\<Sum>c<n. elem L [i, c] * elem L [k, c]) * elem Kinv [k, j])"
      using chol i by (simp add: is_cholesky_factor_def)
    also have "\<dots> = (\<Sum>k<n. \<Sum>c<n. elem L [i, c] * (elem L [k, c] * elem Kinv [k, j]))"
      by (simp add: sum_distrib_right mult.assoc)
    also have "\<dots> = (\<Sum>c<n. \<Sum>k<n. elem L [i, c] * (elem L [k, c] * elem Kinv [k, j]))"
      by (rule sum.swap)
    also have "\<dots> = (\<Sum>c<n. elem L [i, c]
                         * (\<Sum>k<n. elem (tf_transpose L) [c, k] * elem Kinv [k, j]))"
      by (simp add: sum_distrib_left elem_transpose_2 [OF shL])
    also have "\<dots> = (\<Sum>c<n. elem L [i, c] * elem X1 [c, j])"
      using Kinv j by (simp add: is_solution_def)
    also have "\<dots> = elem (eye n) [i, j]"
      using X1 i j by (simp add: is_solution_def)
    finally show ?thesis .
  qed
  moreover have "shape Kinv = [n, n]"
    using Kinv by (simp add: is_solution_def)
  ultimately show ?thesis
    by (simp add: is_solution_def)
qed

section \<open>The reference back end on the sample model\<close>

lemma mk_array_22_eqI:
  assumes "f [0, 0] = g [0, 0]" and "f [0, 1] = g [0, 1]"
    and "f [1, 0] = g [1, 0]" and "f [1, 1] = g [1, 1]"
  shows "mk_array [2, 2] f = mk_array [2, 2] g"
proof (rule mk_array_cong_2)
  fix i j :: nat
  assume "i < 2" and "j < 2"
  then have "(i = 0 \<or> i = 1) \<and> (j = 0 \<or> j = 1)"
    by auto
  then show "f [i, j] = g [i, j]"
    using assms by auto
qed

lemma elem_22:
  "elem (mk_array [2, 2] f) [0, 0] = f [0, 0]" "elem (mk_array [2, 2] f) [0, 1] = f [0, 1]"
  "elem (mk_array [2, 2] f) [1, 0] = f [1, 0]" "elem (mk_array [2, 2] f) [1, 1] = f [1, 1]"
  "elem (mk_array [2, 2] f) [0, Suc 0] = f [0, 1]"
  "elem (mk_array [2, 2] f) [Suc 0, 0] = f [1, 0]"
  "elem (mk_array [2, 2] f) [Suc 0, Suc 0] = f [1, 1]"
  by (simp_all add: elem_mk_array)

lemma upt_2: "[0..<2] = [0, 1]" "[Suc 0..<2] = [1]" "[Suc (Suc 0)..<2] = []" "[2..<2] = []"
  by (simp_all add: numeral_2_eq_2)

lemma sum_lessThan_2: "(\<Sum>k<(2::nat). f k) = f 0 + (f 1 :: real)"
  by (simp add: numeral_2_eq_2)

lemma all_less_2: "(\<forall>i<2. P i) \<longleftrightarrow> P 0 \<and> P (1 :: nat)"
  by (auto simp: less_2_cases_iff)

lemma eye_2: "eye 2 = of_rows [[1, 0], [0, 1]]"
  unfolding eye_def np_eye_def of_rows_22
  by (rule mk_array_22_eqI) simp_all

lemma diag_matrix_ones: "d < 2 \<Longrightarrow> diag_matrix (np_ones [2, 2]) d = of_rows [[1, 0], [0, 1]]"
  unfolding diag_matrix_def np_ones_def of_rows_22 rows_mk_array
  by (rule mk_array_22_eqI) (simp_all add: elem_mk_array)

lemma transpose_22: "tf_transpose (of_rows [[a, b], [c, d]]) = of_rows [[a, c], [b, d]]"
  unfolding tf_transpose_def of_rows_22
  by (simp, rule mk_array_22_eqI) (simp_all add: elem_22)

lemma is_solution_22:
  "is_solution 2 2 (of_rows [[a, b], [c, d]]) (of_rows [[x, y], [z, w]]) (of_rows [[p, q], [r, t]])
     \<longleftrightarrow> a * x + b * z = p \<and> a * y + b * w = q \<and> c * x + d * z = r \<and> c * y + d * w = t"
  by (auto simp: is_solution_def of_rows_22 all_less_2 sum_lessThan_2 elem_22)

lemma lower_triangular_22:
  "lower_triangular 2 (of_rows [[a, b], [c, d]]) \<longleftrightarrow> b = 0 \<and> a \<noteq> 0 \<and> d \<noteq> 0"
  by (auto simp: lower_triangular_def of_rows_22 all_less_2 elem_22)

lemma is_cholesky_factor_22:
  "is_cholesky_factor 2 (of_rows [[p, q], [r, t]]) (of_rows [[a, b], [c, d]])
     \<longleftrightarrow> p = a * a + b * b \<and> q = a * c + b * d \<and> r = c * a + d * b \<and> t = c * c + d * d"
  by (auto simp: is_cholesky_factor_def of_rows_22 all_less_2 sum_lessThan_2 elem_22)

lemma sample_gram:
  assumes "\<not> truthy nl"
  shows "jittered_gram (sample_model nl qd wh) = of_rows [[4, 2], [2, 5]]"
proof -
  have sh: "shape (K linear_kernel sample_Z) = [2, 2]"
    by (simp add: linear_kernel_def sample_Z_def of_rows_22)
  have "tf_add (K linear_kernel sample_Z) (tf_mul (eye 2) (tf_constant jitter))
      = of_rows [[4, 2], [2, 5]]"
    unfolding jittered_gram_eq [OF sh] of_rows_22
    by (rule mk_array_22_eqI)
       (simp_all add: linear_kernel_def upt_2 elem_22 sample_Z_def of_rows_22)
  then show ?thesis
    by (simp add: jittered_gram_def SVGP_init_fields [OF sample_init [OF assms]]
          sample_dims [OF assms])
qed

lemma reference_cholesky_sample:
  "reference_cholesky (of_rows [[4, 2], [2, 5]]) = of_rows [[2, 0], [1, 2]]"
  unfolding reference_cholesky_def of_rows_22 rows_mk_array Let_def
  by (rule mk_array_22_eqI) (simp_all add: upt_2 elem_22 Let_def)

lemma sample_factor:
  "\<not> truthy nl \<Longrightarrow> prior_factor reference_backend (sample_model nl qd wh) = of_rows [[2, 0], [1, 2]]"
  by (simp add: prior_factor_def sample_gram reference_backend_def reference_cholesky_sample)

lemma sample_forward:
  "triangular_solve reference_backend (of_rows [[2, 0], [1, 2]]) (of_rows [[1, 0], [0, 1]]) Lower
     = of_rows [[1 / 2, 0], [- (1 / 4), 1 / 2]]"
  unfolding reference_backend_def backend.simps tri.case
    forward_substitution_def of_rows_22 rows_mk_array cols_mk_array Let_def
  by (rule mk_array_22_eqI) (simp_all add: upt_2 elem_22)

lemma sample_forward_zeros:
  "shape (triangular_solve reference_backend (of_rows [[2, 0], [1, 2]]) (np_zeros [2, 2]) Lower)
     = [2, 2]"
  by (simp add: reference_backend_def forward_substitution_def of_rows_22 np_zeros_def Let_def)

lemma sample_back:
  "triangular_solve reference_backend (of_rows [[2, 1], [0, 2]])
      (of_rows [[1 / 2, 0], [- (1 / 4), 1 / 2]]) Upper
     = of_rows [[5 / 16, - (1 / 8)], [- (1 / 8), 1 / 4]]"
  unfolding reference_backend_def backend.simps tri.case
    back_substitution_def of_rows_22 rows_mk_array cols_mk_array Let_def
  by (rule mk_array_22_eqI) (simp_all add: upt_2 elem_22)

lemma sample_forward_zeros_value:
  "triangular_solve reference_backend (of_rows [[2, 0], [1, 2]]) (np_zeros [2, 2]) Lower
      = np_zeros [2, 2]"
  unfolding reference_backend_def backend.simps tri.case
    forward_substitution_def of_rows_22 np_zeros_def rows_mk_array cols_mk_array Let_def
  by (rule mk_array_22_eqI) (simp_all add: upt_2 elem_22)

text \<open>
  The value on the sample model agrees with the closed form of the divergence between
  \<open>N(0, I)\<close> and \<open>N(0, Z \<cdot> Z\<^sup>T)\<close>, summed over two latent functions:
  \<open>tr(K\<^sup>-\<^sup>1) - 2 + ln det K\<close> with \<open>tr(K\<^sup>-\<^sup>1) = 9/16\<close> and \<open>det K = 16\<close>.
\<close>

lemma sample_KL_value:
  "fst (run_state (build_prior_KL reference_backend (sample_model PyNone True False)) [])
     = 4 * ln 2 - 23 / 16"
proof -
  have t: "\<not> truthy PyNone"
    by simp
  note f = SVGP_init_fields [OF sample_init [OF t, of True False]]
  note d = sample_dims [OF t, of True False]
  have sh: "shape (of_rows [[a, b], [c, e]]) = [2, 2]" for a b c e :: real
    by (simp add: of_rows_22)
  have "fst (run_state (build_prior_KL reference_backend (sample_model PyNone True False)) [])
      = 0.5 * tf_reduce_sum (tf_square (np_zeros [2, 2]))
        + 2 * 0.5 * tf_reduce_sum (tf_log (tf_square (get_diag (of_rows [[2, 0], [1, 2]]))))
        - 0.5 * 2 * 2
        - 0.5 * tf_reduce_sum (tf_log (tf_square (np_ones [2, 2])))
        + 0.5 * tf_reduce_sum
            (tf_mul (tf_expand_dims (get_diag (of_rows [[5 / 16, - (1 / 8)], [- (1 / 8), 1 / 4]])) 1)
               (tf_square (np_ones [2, 2])))"
    by (simp add: prior_KL_natural_diag f d Let_def sample_factor [OF t] eye_2 sample_forward
          transpose_22 sample_back sample_forward_zeros_value sample_q_mu [OF t]
          sample_q_sqrt_diag [OF t])
  also have "tf_reduce_sum (tf_square (np_zeros [2, 2])) = 0"
    by (simp add: np_zeros_def reduce_sum_square_2 [of _ 2 2] elem_mk_array)
  also have "tf_reduce_sum (tf_log (tf_square (get_diag (of_rows [[2, 0], [1, 2]])))) = 4 * ln 2"
    unfolding reduce_sum_log_square_diag [OF sh]
    by (simp add: sum_lessThan_2 of_rows_22 elem_22)
  also have "tf_reduce_sum (tf_log (tf_square (np_ones [2, 2]))) = 0"
    by (simp add: np_ones_def reduce_sum_log_square_2 [of _ 2 2] elem_mk_array)
  also have "tf_reduce_sum
            (tf_mul (tf_expand_dims (get_diag (of_rows [[5 / 16, - (1 / 8)], [- (1 / 8), 1 / 4]])) 1)
               (tf_square (np_ones [2, 2]))) = 9 / 8"
    using reduce_sum_diag_times_square [OF sh, of "np_ones [2, 2]" 2]
    by (simp add: np_ones_def sum_lessThan_2 of_rows_22 elem_22 elem_mk_array)
  finally show ?thesis
    by simp
qed





section \<open>The properties\<close>

subsection \<open>Factorizations in one evaluation of the bound\<close>



subsection \<open>The closed form of the natural, diagonal case\<close>

text \<open>
  Claim C2. With \<open>whiten = false\<close> and \<open>q_diag = true\<close>, \<^verbatim>\<open>build_prior_KL\<close> returns
  \<open>0.5\<cdot>\<Sum>\<alpha>\<^sup>2 + L\<cdot>\<Sum> log|diag(L)| - 0.5\<cdot>M\<cdot>L - 0.5\<cdot>\<Sum> log(q_sqrt\<^sup>2) + 0.5\<cdot>\<Sum> diag(K\<^sup>-\<^sup>1)\<^sub>i \<cdot> q_sqrt\<^sup>2\<^sub>i\<^sub>d\<close>,
  where \<open>L\<close> is the Cholesky factor of \<open>K(Z) + jitter\<cdot>I\<close>, \<open>\<alpha>\<close> the forward triangular
  solve of \<open>L\<close> against \<open>q_mu\<close>, and \<open>K\<^sup>-\<^sup>1\<close> is obtained by solving with \<open>L\<close> against the
  identity and then with \<open>L\<^sup>T\<close>. The shapes assumed are those the primitives return for an
  \<open>M \<times> M\<close> Gram matrix and \<open>M \<times> L\<close> parameters. When the factor satisfies
  \<open>L \<cdot> L\<^sup>T = K(Z) + jitter\<cdot>I\<close> and the two solves return solutions, \<open>K\<^sup>-\<^sup>1\<close> is an inverse
  of the jittered Gram matrix.
\<close>

theorem prior_KL_natural_diag_formula:
  assumes "\<not> whiten m" and "q_diag m"
    and "shape (K (kern m) (array (Z m))) = [num_inducing m, num_inducing m]"
    and "shape (prior_factor bk m) = [num_inducing m, num_inducing m]"
    and "shape (triangular_solve bk (prior_factor bk m) (array (q_mu m)) Lower)
           = [num_inducing m, num_latent m]"
    and "shape (triangular_solve bk (tf_transpose (prior_factor bk m))
                 (triangular_solve bk (prior_factor bk m) (eye (num_inducing m)) Lower) Upper)
           = [num_inducing m, num_inducing m]"
    and "shape (array (q_sqrt m)) = [num_inducing m, num_latent m]"
  shows "fst (run_state (build_prior_KL bk m) fs) = spec_KL_natural_diag bk m
       \<and> (is_cholesky_factor (num_inducing m) (jittered_gram m) (prior_factor bk m)
          \<and> is_solution (num_inducing m) (num_inducing m) (prior_factor bk m)
               (triangular_solve bk (prior_factor bk m) (eye (num_inducing m)) Lower)
               (eye (num_inducing m))
          \<and> is_solution (num_inducing m) (num_inducing m) (tf_transpose (prior_factor bk m))
               (triangular_solve bk (tf_transpose (prior_factor bk m))
                  (triangular_solve bk (prior_factor bk m) (eye (num_inducing m)) Lower) Upper)
               (triangular_solve bk (prior_factor bk m) (eye (num_inducing m)) Lower)
          \<longrightarrow> is_solution (num_inducing m) (num_inducing m) (jittered_gram m)
               (triangular_solve bk (tf_transpose (prior_factor bk m))
                  (triangular_solve bk (prior_factor bk m) (eye (num_inducing m)) Lower) Upper)
               (eye (num_inducing m)))"
proof -
  define L where "L = prior_factor bk m"
  define alpha where "alpha = triangular_solve bk L (array (q_mu m)) Lower"
  define K_inv where "K_inv = triangular_solve bk (tf_transpose L)
                    (triangular_solve bk L (eye (num_inducing m)) Lower) Upper"
  have L: "L = cholesky bk (mk_array [num_inducing m, num_inducing m]
             (ix2 (\<lambda>i j. elem (K (kern m) (array (Z m))) [i, j] + (if i = j then jitter else 0))))"
    by (simp add: L_def prior_factor_def jittered_gram_def jittered_gram_eq [OF assms(3)])
  have sh: "shape L = [num_inducing m, num_inducing m]"
    "shape alpha = [num_inducing m, num_latent m]"
    "shape K_inv = [num_inducing m, num_inducing m]"
    using assms(4-6) by (simp_all add: L_def alpha_def K_inv_def)
  have "fst (run_state (build_prior_KL bk m) fs) =
      0.5 * tf_reduce_sum (tf_square alpha)
         + real (num_latent m) * 0.5 * tf_reduce_sum (tf_log (tf_square (get_diag L)))
         - 0.5 * real (num_inducing m) * real (num_latent m)
         - 0.5 * tf_reduce_sum (tf_log (tf_square (array (q_sqrt m))))
         + 0.5 * tf_reduce_sum (tf_mul (tf_expand_dims (get_diag K_inv) 1)
                                   (tf_square (array (q_sqrt m))))"
    by (simp add: prior_KL_natural_diag [OF assms(1,2)] Let_def L_def alpha_def K_inv_def)
  also have "\<dots> = 0.5 * (\<Sum>i<num_inducing m. \<Sum>d<num_latent m. (elem alpha [i, d])\<^sup>2)
         + real (num_latent m) * (\<Sum>i<num_inducing m. ln \<bar>elem L [i, i]\<bar>)
         - 0.5 * real (num_inducing m) * real (num_latent m)
         - 0.5 * (\<Sum>i<num_inducing m. \<Sum>d<num_latent m. ln ((elem (array (q_sqrt m)) [i, d])\<^sup>2))
         + 0.5 * (\<Sum>i<num_inducing m. \<Sum>d<num_latent m.
                    elem K_inv [i, i] * (elem (array (q_sqrt m)) [i, d])\<^sup>2)"
    by (simp add: reduce_sum_log_square_diag [OF sh(1)] reduce_sum_square_2 [OF sh(2)]
          reduce_sum_log_square_2 [OF assms(7)] reduce_sum_diag_times_square [OF sh(3) assms(7)])
  also have "\<dots> = spec_KL_natural_diag bk m"
    unfolding spec_KL_natural_diag_def Let_def L [symmetric] alpha_def [symmetric]
      K_inv_def [symmetric] ..
  finally have "fst (run_state (build_prior_KL bk m) fs) = spec_KL_natural_diag bk m" .
  then show ?thesis
    using inverse_of_gram by blast
qed

text \<open>
  The sample model with the reference back end: the factor is exact, and the two solves
  give the inverse of the factored matrix.
\<close>

theorem prior_KL_natural_diag_formula_witness:
  "\<not> whiten (sample_model PyNone True False) \<and> q_diag (sample_model PyNone True False)
   \<and> prior_factor reference_backend (sample_model PyNone True False) = of_rows [[2, 0], [1, 2]]
   \<and> fst (run_state (build_prior_KL reference_backend (sample_model PyNone True False)) [])
       = spec_KL_natural_diag reference_backend (sample_model PyNone True False)
   \<and> spec_KL_natural_diag reference_backend (sample_model PyNone True False) = 4 * ln 2 - 23 / 16
   \<and> is_solution 2 2 (of_rows [[4, 2], [2, 5]]) (of_rows [[5 / 16, - (1 / 8)], [- (1 / 8), 1 / 4]])
        (of_rows [[1, 0], [0, 1]])"
proof -
  have t: "\<not> truthy PyNone"
    by simp
  note f = SVGP_init_fields [OF sample_init [OF t, of True False]]
  note d = sample_dims [OF t, of True False]
  note e = sample_factor [OF t] sample_gram [OF t] eye_2 sample_forward transpose_22 sample_back
  have k: "shape (K linear_kernel sample_Z) = [2, 2]"
    by (simp add: linear_kernel_def sample_Z_def of_rows_22)
  have q: "shape (array (q_sqrt (sample_model PyNone True False))) = [2, 2]"
    by (simp add: sample_q_sqrt_diag [OF t] np_ones_def)
  have r: "shape (of_rows [[a, b], [c, d]]) = [2, 2]" for a b c d :: real
    by (simp add: of_rows_22)
  show ?thesis
    using prior_KL_natural_diag_formula [of "sample_model PyNone True False" reference_backend "[]"]
    using sample_KL_value
    by (simp add: f d e k q r sample_q_mu [OF t] sample_forward_zeros
          is_solution_22 is_cholesky_factor_22)
qed

subsection \<open>The value of the bound\<close>

text \<open>
  Claim C3. \<^verbatim>\<open>build_likelihood\<close> returns the sum of the likelihood's variational
  expectations at \<open>(fmean + mean_function(X), fvar, Y)\<close> minus the prior KL, where
  \<open>(fmean, fvar)\<close> is the whitened predictor at the training inputs when \<open>whiten\<close> is set
  and the natural predictor otherwise; the predictor runs after \<^verbatim>\<open>build_prior_KL\<close>.
\<close>

theorem build_likelihood_value:
  "fst (run_state (build_likelihood bk m) fs) =
     (let (fmean, fvar) = fst (run_state
            (if whiten m then
               gaussian_gp_predict_whitened bk (X m) (array (Z m)) (kern m)
                 (array (q_mu m)) (array (q_sqrt m)) (num_latent m)
             else
               gaussian_gp_predict bk (X m) (array (Z m)) (kern m)
                 (array (q_mu m)) (array (q_sqrt m)) (num_latent m))
            (snd (run_state (build_prior_KL bk m) fs)))
      in tf_reduce_sum (variational_expectations (likelihood m)
            (tf_add fmean (mean_function m (X m))) fvar (Y m))
         - fst (run_state (build_prior_KL bk m) fs))"
  by (simp add: build_likelihood_def split_beta Let_def)

subsection \<open>The KL divergence at the whitened prior\<close>

text \<open>
  Claim C4. With \<open>q_diag\<close> and \<open>whiten\<close> set, \<open>q_mu\<close> the \<open>M \<times> L\<close> array of zeros and \<open>q_sqrt\<close>
  the \<open>M \<times> L\<close> array of ones (the state right after construction),
  \<^verbatim>\<open>build_prior_KL\<close> is exactly 0 and factorizes nothing: the Mahalanobis term and the
  log-determinant term vanish, and the trace term is \<open>0.5\<cdot>M\<cdot>L\<close>, which cancels the constant.
\<close>

theorem prior_KL_zero_at_whitened_prior:
  assumes "whiten m" and "q_diag m"
    and "shape (array (q_mu m)) = [num_inducing m, num_latent m]"
    and "\<forall>i<num_inducing m. \<forall>d<num_latent m. elem (array (q_mu m)) [i, d] = 0"
    and "shape (array (q_sqrt m)) = [num_inducing m, num_latent m]"
    and "\<forall>i<num_inducing m. \<forall>d<num_latent m. elem (array (q_sqrt m)) [i, d] = 1"
  shows "run_state (build_prior_KL bk m) fs = (0, fs)
       \<and> tf_reduce_sum (tf_square (array (q_mu m))) = 0
       \<and> tf_reduce_sum (tf_log (tf_square (array (q_sqrt m)))) = 0
       \<and> 0.5 * tf_reduce_sum (tf_square (array (q_sqrt m)))
           = 0.5 * real (num_inducing m) * real (num_latent m)"
proof -
  have a: "tf_reduce_sum (tf_square (array (q_mu m))) = 0"
    using assms(4) by (simp add: reduce_sum_square_2 [OF assms(3)])
  have b: "tf_reduce_sum (tf_log (tf_square (array (q_sqrt m)))) = 0"
    using assms(6) by (simp add: reduce_sum_log_square_2 [OF assms(5)])
  have c: "tf_reduce_sum (tf_square (array (q_sqrt m))) = real (num_inducing m) * real (num_latent m)"
    using assms(6) by (simp add: reduce_sum_square_2 [OF assms(5)])
  have "run_state (build_prior_KL bk m) fs = (0, fs)"
    using assms(1,2) by (simp add: build_prior_KL_def Let_def a b c)
  then show ?thesis
    by (simp add: a b c)
qed

text \<open>The sample model right after its construction with \<open>q_diag\<close> and \<open>whiten\<close> set.\<close>

theorem prior_KL_zero_at_whitened_prior_witness:
  "whiten (sample_model PyNone True True) \<and> q_diag (sample_model PyNone True True)
   \<and> array (q_mu (sample_model PyNone True True)) = np_zeros [2, 2]
   \<and> array (q_sqrt (sample_model PyNone True True)) = np_ones [2, 2]
   \<and> run_state (build_prior_KL reference_backend (sample_model PyNone True True)) [] = (0, [])"
proof -
  have t: "\<not> truthy PyNone"
    by simp
  note f = SVGP_init_fields [OF sample_init [OF t, of True True]]
  note d = sample_dims [OF t, of True True]
  have mu: "array (q_mu (sample_model PyNone True True)) = np_zeros [2, 2]"
    by (rule sample_q_mu [OF t])
  have sq: "array (q_sqrt (sample_model PyNone True True)) = np_ones [2, 2]"
    by (rule sample_q_sqrt_diag [OF t])
  have "run_state (build_prior_KL reference_backend (sample_model PyNone True True)) [] = (0, [])"
    using prior_KL_zero_at_whitened_prior [of "sample_model PyNone True True" reference_backend "[]"]
    by (simp add: f d mu sq np_zeros_def np_ones_def elem_mk_array)
  then show ?thesis
    by (simp add: f mu sq)
qed

subsection \<open>Agreement of the full and the diagonal parameterization\<close>

text \<open>
  Claim C5. Let \<open>s\<close> be an \<open>M \<times> L\<close> array of strictly positive entries. For either setting
  of \<open>whiten\<close>, the KL of the full-covariance branch with every slice
  \<^verbatim>\<open>q_sqrt[:, :, d]\<close> equal to \<open>diag(s_d)\<close> equals the KL of the diagonal branch with
  \<open>q_sqrt = s\<close>, for the same \<open>Z\<close>, kernel and \<open>q_mu\<close>. For \<open>whiten = false\<close> the
  primitives are assumed to honour their contracts on the calls made: the factor is lower
  triangular with a nonzero diagonal, and each triangular solve returns a solution of its
  system.
\<close>

theorem prior_KL_full_diag_agree:
  assumes qd: "q_diag md"
    and s: "shape (array (q_sqrt md)) = [num_inducing md, num_latent md]"
    and pos: "\<forall>i<num_inducing md. \<forall>d<num_latent md. 0 < elem (array (q_sqrt md)) [i, d]"
    and slices: "\<forall>d<num_latent md. slice_last (array qf) d = diag_matrix (array (q_sqrt md)) d"
    and solves: "\<not> whiten md \<longrightarrow>
        lower_triangular (num_inducing md) (prior_factor bk md)
      \<and> is_solution (num_inducing md) (num_inducing md) (prior_factor bk md)
           (triangular_solve bk (prior_factor bk md) (eye (num_inducing md)) Lower)
           (eye (num_inducing md))
      \<and> is_solution (num_inducing md) (num_inducing md) (tf_transpose (prior_factor bk md))
           (triangular_solve bk (tf_transpose (prior_factor bk md))
              (triangular_solve bk (prior_factor bk md) (eye (num_inducing md)) Lower) Upper)
           (triangular_solve bk (prior_factor bk md) (eye (num_inducing md)) Lower)
      \<and> (\<forall>d<num_latent md.
            is_solution (num_inducing md) (num_inducing md) (prior_factor bk md)
              (triangular_solve bk (prior_factor bk md) (diag_matrix (array (q_sqrt md)) d) Lower)
              (diag_matrix (array (q_sqrt md)) d))"
  shows "fst (run_state (build_prior_KL bk (md\<lparr>q_diag := False, q_sqrt := qf\<rparr>)) fs)
       = fst (run_state (build_prior_KL bk md) fs)"
proof (cases "whiten md")
  case True
  define KL0 where "KL0 = 0.5 * tf_reduce_sum (tf_square (array (q_mu md)))
      - 0.5 * real (num_inducing md) * real (num_latent md)"
  have full: "fst (run_state (build_prior_KL bk (md\<lparr>q_diag := False, q_sqrt := qf\<rparr>)) fs)
      = KL0 + (\<Sum>d<num_latent md.
           - 0.5 * (\<Sum>i<num_inducing md. ln ((elem (array (q_sqrt md)) [i, d])\<^sup>2))
           + 0.5 * (\<Sum>i<num_inducing md. (elem (array (q_sqrt md)) [i, d])\<^sup>2))"
    using True slices
    by (simp add: build_prior_KL_def Let_def KL0_def)
       (rule fold_accumulate,
        simp add: triangle_diag_matrix log_det_diag_matrix [OF s] frobenius_diag_matrix [OF s])
  have diag: "fst (run_state (build_prior_KL bk md) fs)
      = KL0 + (- 0.5 * (\<Sum>i<num_inducing md. \<Sum>d<num_latent md.
                          ln ((elem (array (q_sqrt md)) [i, d])\<^sup>2))
             + 0.5 * (\<Sum>i<num_inducing md. \<Sum>d<num_latent md.
                          (elem (array (q_sqrt md)) [i, d])\<^sup>2))"
    using True qd
    by (simp add: build_prior_KL_def Let_def KL0_def reduce_sum_log_square_2 [OF s]
          reduce_sum_square_2 [OF s])
  show ?thesis
    unfolding full diag accumulate_swap
    by (simp add: sum.swap [of _ "{..<num_latent md}" "{..<num_inducing md}"])
next
  case False
  define L where "L = prior_factor bk md"
  define KL1 where "KL1 =
      0.5 * tf_reduce_sum (tf_square (triangular_solve bk L (array (q_mu md)) Lower))
      + real (num_latent md) * 0.5 * tf_reduce_sum (tf_log (tf_square (get_diag L)))
      - 0.5 * real (num_inducing md) * real (num_latent md)"
  define X1 where "X1 = triangular_solve bk L (eye (num_inducing md)) Lower"
  define K_inv where "K_inv = triangular_solve bk (tf_transpose L) X1 Upper"
  define X2 where "X2 = (\<lambda>d. triangular_solve bk L (diag_matrix (array (q_sqrt md)) d) Lower)"
  have lt: "lower_triangular (num_inducing md) L"
    and x1: "is_solution (num_inducing md) (num_inducing md) L X1 (eye (num_inducing md))"
    and kinv: "is_solution (num_inducing md) (num_inducing md) (tf_transpose L) K_inv X1"
    and x2: "\<And>d. d < num_latent md \<Longrightarrow>
          is_solution (num_inducing md) (num_inducing md) L (X2 d)
            (diag_matrix (array (q_sqrt md)) d)"
    using solves False by (simp_all add: L_def X1_def K_inv_def X2_def)
  have shX2: "shape (X2 d) = [num_inducing md, num_inducing md]" if "d < num_latent md" for d
    using x2 [OF that] by (simp add: is_solution_def)
  have shK: "shape K_inv = [num_inducing md, num_inducing md]"
    using kinv by (simp add: is_solution_def)
  have frob: "tf_reduce_sum
        (tf_square (triangular_solve bk L (diag_matrix (array (q_sqrt md)) d) Lower))
      = (\<Sum>i<num_inducing md. \<Sum>j<num_inducing md. (elem (X2 d) [i, j])\<^sup>2)"
    if "d < num_latent md" for d
    using reduce_sum_square_2 [OF shX2 [OF that]] by (simp add: X2_def)
  have full: "fst (run_state (build_prior_KL bk (md\<lparr>q_diag := False, q_sqrt := qf\<rparr>)) fs)
      = KL1 + (\<Sum>d<num_latent md.
           - 0.5 * (\<Sum>i<num_inducing md. ln ((elem (array (q_sqrt md)) [i, d])\<^sup>2))
           + 0.5 * (\<Sum>i<num_inducing md. \<Sum>j<num_inducing md. (elem (X2 d) [i, j])\<^sup>2))"
    using False slices
    by (simp add: build_prior_KL_def Let_def KL1_def L_def prior_factor_def jittered_gram_def)
       (rule fold_accumulate,
        simp add: triangle_diag_matrix log_det_diag_matrix [OF s]
          L_def [symmetric] prior_factor_def [symmetric] jittered_gram_def [symmetric] frob)
  have diag: "fst (run_state (build_prior_KL bk md) fs)
      = KL1 + (- 0.5 * (\<Sum>i<num_inducing md. \<Sum>d<num_latent md.
                          ln ((elem (array (q_sqrt md)) [i, d])\<^sup>2))
             + 0.5 * (\<Sum>i<num_inducing md. \<Sum>d<num_latent md.
                         elem K_inv [i, i] * (elem (array (q_sqrt md)) [i, d])\<^sup>2))"
    using False qd
    by (simp add: prior_KL_natural_diag Let_def KL1_def L_def [symmetric] X1_def [symmetric]
          K_inv_def [symmetric] reduce_sum_log_square_2 [OF s]
          reduce_sum_diag_times_square [OF shK s])
  have tr: "(\<Sum>d<num_latent md. \<Sum>i<num_inducing md. \<Sum>j<num_inducing md.
               (elem (X2 d) [i, j])\<^sup>2)
      = (\<Sum>i<num_inducing md. \<Sum>d<num_latent md.
            elem K_inv [i, i] * (elem (array (q_sqrt md)) [i, d])\<^sup>2)"
    by (rule natural_trace_terms [OF lt x1 kinv x2 s])
  show ?thesis
    unfolding full diag accumulate_swap tr ..
qed

text \<open>
  The sample model right after construction with \<open>whiten = false\<close>: the identity slices of
  the full parameterization against the all-ones diagonal parameterization.
\<close>

theorem prior_KL_full_diag_agree_witness:
  "q_diag (sample_model PyNone True False) \<and> \<not> whiten (sample_model PyNone True False)
   \<and> array (q_sqrt (sample_model PyNone True False)) = np_ones [2, 2]
   \<and> slice_last (array (q_sqrt (sample_model PyNone False False))) 0 = diag_matrix (np_ones [2, 2]) 0
   \<and> slice_last (array (q_sqrt (sample_model PyNone False False))) 1 = diag_matrix (np_ones [2, 2]) 1
   \<and> lower_triangular 2 (prior_factor reference_backend (sample_model PyNone True False))
   \<and> fst (run_state (build_prior_KL reference_backend
              ((sample_model PyNone True False)
                 \<lparr>q_diag := False, q_sqrt := q_sqrt (sample_model PyNone False False)\<rparr>)) [])
       = fst (run_state (build_prior_KL reference_backend (sample_model PyNone True False)) [])"
proof -
  have t: "\<not> truthy PyNone"
    by simp
  note f = SVGP_init_fields [OF sample_init [OF t, of True False]]
  note d = sample_dims [OF t, of True False]
  note e = sample_factor [OF t] eye_2 sample_forward transpose_22 sample_back diag_matrix_ones
  have sq: "array (q_sqrt (sample_model PyNone True False)) = np_ones [2, 2]"
    by (rule sample_q_sqrt_diag [OF t])
  have sl: "slice_last (array (q_sqrt (sample_model PyNone False False))) k
          = diag_matrix (np_ones [2, 2]) k" if "k < 2" for k
    using that by (simp add: sample_q_sqrt_full [OF t] diag_matrix_ones eye_2 [symmetric] eye_def)
  have lt: "lower_triangular 2 (prior_factor reference_backend (sample_model PyNone True False))"
    by (simp add: e lower_triangular_22)
  have h1: "q_diag (sample_model PyNone True False)"
    by (simp add: f)
  have h2: "shape (array (q_sqrt (sample_model PyNone True False)))
      = [num_inducing (sample_model PyNone True False), num_latent (sample_model PyNone True False)]"
    by (simp add: sq d np_ones_def)
  have h3: "\<forall>i<num_inducing (sample_model PyNone True False).
      \<forall>k<num_latent (sample_model PyNone True False).
        0 < elem (array (q_sqrt (sample_model PyNone True False))) [i, k]"
    by (simp add: sq d np_ones_def elem_mk_array)
  have h4: "\<forall>k<num_latent (sample_model PyNone True False).
      slice_last (array (q_sqrt (sample_model PyNone False False))) k
        = diag_matrix (array (q_sqrt (sample_model PyNone True False))) k"
    by (simp add: sq d sl)
  have h5: "\<not> whiten (sample_model PyNone True False) \<longrightarrow>
        lower_triangular (num_inducing (sample_model PyNone True False))
          (prior_factor reference_backend (sample_model PyNone True False))
      \<and> is_solution (num_inducing (sample_model PyNone True False))
           (num_inducing (sample_model PyNone True False))
           (prior_factor reference_backend (sample_model PyNone True False))
           (triangular_solve reference_backend
              (prior_factor reference_backend (sample_model PyNone True False))
              (eye (num_inducing (sample_model PyNone True False))) Lower)
           (eye (num_inducing (sample_model PyNone True False)))
      \<and> is_solution (num_inducing (sample_model PyNone True False))
           (num_inducing (sample_model PyNone True False))
           (tf_transpose (prior_factor reference_backend (sample_model PyNone True False)))
           (triangular_solve reference_backend
              (tf_transpose (prior_factor reference_backend (sample_model PyNone True False)))
              (triangular_solve reference_backend
                 (prior_factor reference_backend (sample_model PyNone True False))
                 (eye (num_inducing (sample_model PyNone True False))) Lower) Upper)
           (triangular_solve reference_backend
              (prior_factor reference_backend (sample_model PyNone True False))
              (eye (num_inducing (sample_model PyNone True False))) Lower)
      \<and> (\<forall>k<num_latent (sample_model PyNone True False).
            is_solution (num_inducing (sample_model PyNone True False))
              (num_inducing (sample_model PyNone True False))
              (prior_factor reference_backend (sample_model PyNone True False))
              (triangular_solve reference_backend
                 (prior_factor reference_backend (sample_model PyNone True False))
                 (diag_matrix (array (q_sqrt (sample_model PyNone True False))) k) Lower)
              (diag_matrix (array (q_sqrt (sample_model PyNone True False))) k))"
    by (simp add: d e sq is_solution_22 lower_triangular_22)
  have "fst (run_state (build_prior_KL reference_backend
              ((sample_model PyNone True False)
                 \<lparr>q_diag := False, q_sqrt := q_sqrt (sample_model PyNone False False)\<rparr>)) [])
       = fst (run_state (build_prior_KL reference_backend (sample_model PyNone True False)) [])"
    by (rule prior_KL_full_diag_agree [OF h1 h2 h3 h4 h5])
  then show ?thesis
    using sl [of 0] sl [of 1] by (simp add: f sq lt)
qed

subsection \<open>The constraint on the variational scale\<close>

text \<open>
  Claim C6. The constructor gives \<open>q_sqrt\<close> the positive transform exactly when \<open>q_diag\<close> is
  set: then every entry is the image of a free variable under a strictly positive map,
  hence strictly positive. Without \<open>q_diag\<close> the parameter carries no transform, and its
  entries are the free variables themselves. No method of the model assigns \<open>q_sqrt\<close> after
  the constructor (the methods take the model and return values only).
\<close>

theorem q_sqrt_constraint:
  assumes "SVGP_init Xd Yd kn lik Zs mf nl qd wh = Some m"
  shows "(qd \<longrightarrow> transform (q_sqrt m) = Some Positive
              \<and> ((\<forall>x. 0 < positive x) \<longrightarrow> (\<forall>x. 0 < effective_value positive (q_sqrt m) x)))
       \<and> (\<not> qd \<longrightarrow> transform (q_sqrt m) = None
              \<and> (\<forall>x. effective_value positive (q_sqrt m) x = x))"
  using SVGP_init_fields(9) [OF assms]
  by (simp add: effective_value_def)

text \<open>The sample model, with the exponential as the positive map and the free value \<open>-3\<close>.\<close>

theorem q_sqrt_constraint_witness:
  "transform (q_sqrt (sample_model PyNone True True)) = Some Positive
   \<and> 0 < effective_value exp (q_sqrt (sample_model PyNone True True)) (- 3)
   \<and> transform (q_sqrt (sample_model PyNone False True)) = None
   \<and> effective_value exp (q_sqrt (sample_model PyNone False True)) (- 3) = - 3"
proof -
  have t: "\<not> truthy PyNone"
    by simp
  show ?thesis
    using q_sqrt_constraint [OF sample_init [OF t, of True True], of exp]
      q_sqrt_constraint [OF sample_init [OF t, of False True], of exp]
    by simp
qed

subsection \<open>Prediction\<close>

text \<open>
  Claim C7. \<^verbatim>\<open>build_predict(Xnew)\<close> returns the pair of the conditional mean plus
  \<open>mean_function(Xnew)\<close> and the conditional variance, from the whitened predictor when
  \<open>whiten\<close> is set and the natural one otherwise. It reads neither the targets nor the
  likelihood: replacing both in the model leaves the computation unchanged.
\<close>

theorem build_predict_value:
  "fst (run_state (build_predict bk m Xnew) fs) =
     (let (mu, var) = fst (run_state
            (if whiten m then
               gaussian_gp_predict_whitened bk Xnew (array (Z m)) (kern m)
                 (array (q_mu m)) (array (q_sqrt m)) (num_latent m)
             else
               gaussian_gp_predict bk Xnew (array (Z m)) (kern m)
                 (array (q_mu m)) (array (q_sqrt m)) (num_latent m)) fs)
      in (tf_add mu (mean_function m Xnew), var))
   \<and> build_predict bk (m\<lparr>Y := Y', likelihood := lik'\<rparr>) Xnew = build_predict bk m Xnew"
  by (simp add: build_predict_def split_beta Let_def)

subsection \<open>The jitter\<close>

text \<open>
  Claim C8. The prior KL factorizes only in the \<open>whiten = false\<close> branches, once, and the
  matrix it hands to the factorization is \<open>K(Z) + 10\<^sup>-\<^sup>6\<cdot>I\<close>: the \<open>M \<times> M\<close> array with
  entries \<open>K(Z)\<^sub>i\<^sub>j\<close>, plus \<open>10\<^sup>-\<^sup>6\<close> on the diagonal.
\<close>

theorem prior_KL_jitter:
  "jitter = 1 / 10 ^ 6
   \<and> (whiten m \<longrightarrow> snd (run_state (build_prior_KL bk m) fs) = fs)
   \<and> (\<not> whiten m \<and> shape (K (kern m) (array (Z m))) = [num_inducing m, num_inducing m] \<longrightarrow>
        snd (run_state (build_prior_KL bk m) fs)
          = fs @ [mk_array [num_inducing m, num_inducing m]
                   (ix2 (\<lambda>i j. elem (K (kern m) (array (Z m))) [i, j]
                                + (if i = j then jitter else 0)))])"
proof -
  have "jitter = 1 / 10 ^ 6"
    by (simp add: jitter_def)
  then show ?thesis
    by (simp add: prior_KL_log jittered_gram_def jittered_gram_eq)
qed

text \<open>The sample model, with and without whitening.\<close>

theorem prior_KL_jitter_witness:
  "\<not> whiten (sample_model PyNone True False)
   \<and> shape (K linear_kernel sample_Z) = [2, 2]
   \<and> snd (run_state (build_prior_KL reference_backend (sample_model PyNone True False)) [])
       = [mk_array [2, 2]
            (ix2 (\<lambda>i j. elem (K linear_kernel sample_Z) [i, j] + (if i = j then jitter else 0)))]
   \<and> snd (run_state (build_prior_KL reference_backend (sample_model PyNone True True)) []) = []"
proof -
  have t: "\<not> truthy PyNone"
    by simp
  note f = SVGP_init_fields [OF sample_init [OF t, of True False]]
  note f' = SVGP_init_fields [OF sample_init [OF t, of True True]]
  note d = sample_dims [OF t, of True False]
  have k: "shape (K linear_kernel sample_Z) = [2, 2]"
    by (simp add: linear_kernel_def sample_Z_def of_rows_22)
  show ?thesis
    using prior_KL_jitter [of "sample_model PyNone True False" reference_backend "[]"]
      prior_KL_jitter [of "sample_model PyNone True True" reference_backend "[]"]
    by (simp add: f f' d k)
qed

subsection \<open>Initial variational parameters\<close>

text \<open>
  Claim C9. Immediately after a construction that succeeds, \<open>q_mu\<close> is the \<open>M \<times> L\<close> array of
  zeros, \<open>q_sqrt\<close> is the \<open>M \<times> L\<close> array of ones when \<open>q_diag\<close> is set, and otherwise an
  \<open>M \<times> M \<times> L\<close> array each of whose \<open>L\<close> slices \<^verbatim>\<open>q_sqrt[:, :, d]\<close> is the
  \<open>M \<times> M\<close> identity matrix; \<open>M\<close> is the number of rows of \<open>Z\<close> and \<open>L\<close> the number of latent
  functions.
\<close>

theorem init_variational_parameters:
  assumes "SVGP_init Xd Yd kn lik Zs mf nl qd wh = Some m"
  shows "shape_at Zs 0 = Some (num_inducing m)
       \<and> array (q_mu m) = np_zeros [num_inducing m, num_latent m]
       \<and> (qd \<longrightarrow> array (q_sqrt m) = np_ones [num_inducing m, num_latent m])
       \<and> (\<not> qd \<longrightarrow> shape (array (q_sqrt m)) = [num_inducing m, num_inducing m, num_latent m]
              \<and> (\<forall>d<num_latent m. slice_last (array (q_sqrt m)) d = np_eye (num_inducing m)))"
  using SVGP_init_arrays [OF assms] by simp

text \<open>The sample model with a full covariance: two inducing points, two latent functions.\<close>

theorem init_variational_parameters_witness:
  "SVGP_init sample_X sample_Y linear_kernel gaussian_likelihood sample_Z zero_mean PyNone False True
     = Some (sample_model PyNone False True)
   \<and> shape_at sample_Z 0 = Some 2
   \<and> array (q_mu (sample_model PyNone False True)) = np_zeros [2, 2]
   \<and> shape (array (q_sqrt (sample_model PyNone False True))) = [2, 2, 2]
   \<and> slice_last (array (q_sqrt (sample_model PyNone False True))) 0 = np_eye 2
   \<and> slice_last (array (q_sqrt (sample_model PyNone False True))) 1 = np_eye 2"
proof -
  have t: "\<not> truthy PyNone"
    by simp
  show ?thesis
    using init_variational_parameters [OF sample_init [OF t, of False True]]
    by (simp add: sample_init [OF t] sample_dims [OF t])
qed

subsection \<open>The default number of latent functions\<close>

text \<open>
  Claim C10. When the argument \<^verbatim>\<open>num_latent\<close> is falsy (\<^verbatim>\<open>None\<close>, which is also the
  default, the integer 0 or \<^verbatim>\<open>False\<close>), the constructor does not reject it: given a
  two-dimensional \<open>Y\<close> it succeeds and the number of latent functions is the number of
  columns of \<open>Y\<close>. Only a truthy argument is used as given.
\<close>

theorem init_num_latent_default:
  "(\<not> truthy nl \<and> 1 < length (shape Yd) \<and> 0 < length (shape Zs) \<and> (qd \<or> 0 < shape Yd ! 1)
      \<longrightarrow> map_option num_latent (SVGP_init Xd Yd kn lik Zs mf nl qd wh) = Some (shape Yd ! 1))
   \<and> (\<forall>m. SVGP_init Xd Yd kn lik Zs mf nl qd wh = Some m
          \<longrightarrow> (if truthy nl then as_int nl = Some (int (num_latent m))
               else shape_at Yd 1 = Some (num_latent m)))
   \<and> \<not> truthy PyNone \<and> \<not> truthy (PyInt 0) \<and> \<not> truthy (PyBool False)"
  using SVGP_init_default [of nl Yd Zs qd Xd kn lik mf wh]
    SVGP_init_num_latent [of Xd Yd kn lik Zs mf nl qd wh]
  by auto

text \<open>The sample data with \<^verbatim>\<open>num_latent=0\<close>: the model has the two columns of \<open>Y\<close>.\<close>

theorem init_num_latent_default_witness:
  "\<not> truthy (PyInt 0) \<and> 1 < length (shape sample_Y) \<and> 0 < length (shape sample_Z)
   \<and> map_option num_latent
        (SVGP_init sample_X sample_Y linear_kernel gaussian_likelihood sample_Z zero_mean
           (PyInt 0) False True) = Some 2
   \<and> shape_at sample_Y 1 = Some 2"
  using init_num_latent_default [of "PyInt 0" sample_Y sample_Z False sample_X linear_kernel
      gaussian_likelihood zero_mean True]
  by (simp add: sample_shapes shape_at_def)

end
